theory Spec2Isabelle
  imports Complex_Main "HOL-Library.Log_Nat"
begin

section \<open>Numbers\<close>

text \<open>
  A JavaScript \<open>number\<close> is an IEEE 754 binary64 value. Numbers are modelled as rationals,
  the finite binary64 values among them: \<open>double x\<close> is the binary64 value nearest to \<open>x\<close>,
  half-way cases going to the even significand, with the gradual underflow of the format;
  the infinities and NaN are not modelled. A decimal literal of the source denotes the
  nearest binary64 value, so \<open>1.45\<close> is \<open>double (145 / 100)\<close>, and the product of the
  language is the exact product rounded, \<open>times64\<close>. The products behind the material and
  the labor line item are computed with \<open>times64\<close>; the remaining arithmetic (the skip
  loads, the fees and the range on whole pounds, the completeness score, the parsed
  numbers) is on the exact rationals. \<open>Math.round\<close> gives the nearest integer, half-way
  cases going towards plus infinity, and \<open>Math.ceil\<close> the ceiling; both are exact on a
  binary64 value.
\<close>

type_synonym number = rat

text \<open>Rounding to the nearest integer, half-way cases to the even one.\<close>

definition round_half_even :: "rat \<Rightarrow> int" where
  "round_half_even x =
     (let n = \<lfloor>x\<rfloor>; d = x - of_int n
      in if d < 1 / 2 then n else if d > 1 / 2 then n + 1 else if even n then n else n + 1)"

definition pow2 :: "int \<Rightarrow> rat" where
  "pow2 e = (if 0 \<le> e then 2 ^ nat e else 1 / 2 ^ nat (- e))"

text \<open>The binary exponent of a number other than zero: the \<open>e\<close> with
  \<open>2^e \<le> |x| < 2^(e+1)\<close>, from the bit lengths of numerator and denominator.\<close>

definition exponent :: "rat \<Rightarrow> int" where
  "exponent x =
     (let e = bitlen (fst (quotient_of \<bar>x\<bar>)) - bitlen (snd (quotient_of \<bar>x\<bar>))
      in if pow2 e \<le> \<bar>x\<bar> then e else e - 1)"

text \<open>A binary64 value has a significand of 53 bits, and its unit in the last place is
  at least \<open>2^-1074\<close>.\<close>

definition double :: "rat \<Rightarrow> number" where
  "double x =
     (if x = 0 then 0
      else (let ulp = pow2 (max (exponent x - 52) (- 1074))
            in of_int (round_half_even (x / ulp)) * ulp))"

definition times64 :: "number \<Rightarrow> number \<Rightarrow> number" where
  "times64 x y = double (x * y)"

definition Math_round :: "number \<Rightarrow> number" where
  "Math_round x = of_int (floor (x + 1 / 2))"

definition Math_ceil :: "number \<Rightarrow> number" where
  "Math_ceil x = of_int (ceiling x)"

text \<open>JavaScript truthiness of a nullable number and of a nullable string.\<close>

definition truthy_num :: "number option \<Rightarrow> bool" where
  "truthy_num x = (case x of None \<Rightarrow> False | Some v \<Rightarrow> v \<noteq> 0)"

definition truthy_str :: "string option \<Rightarrow> bool" where
  "truthy_str x = (case x of None \<Rightarrow> False | Some s \<Rightarrow> s \<noteq> [])"

section \<open>Strings\<close>

text \<open>
  A JavaScript string is modelled as a list of 8-bit characters: the code units
  0 to 255 (Latin-1), which contain every character the patterns and keyword lists of the
  source mention (among them the pound sign 0xA3, the multiplication sign 0xD7 and the
  superscript two 0xB2). \<open>toLowerCase\<close> and \<open>toUpperCase\<close> act on the ASCII letters and
  on the Latin-1 letters 0xC0 to 0xDE and 0xE0 to 0xFE (the signs 0xD7 and 0xF7 are not
  letters).
\<close>

definition code_of :: "char \<Rightarrow> nat" where
  "code_of c = of_char c"

definition isDigit :: "char \<Rightarrow> bool" where
  "isDigit c = (48 \<le> code_of c \<and> code_of c \<le> 57)"

text \<open>The ranges \<open>a-z\<close> and \<open>A-Z\<close> of the character classes.\<close>

definition isLowerAZ :: "char \<Rightarrow> bool" where
  "isLowerAZ c = (97 \<le> code_of c \<and> code_of c \<le> 122)"

definition isUpperAZ :: "char \<Rightarrow> bool" where
  "isUpperAZ c = (65 \<le> code_of c \<and> code_of c \<le> 90)"

text \<open>White space (\<open>\s\<close> and \<open>trim\<close>): tab, line feed, vertical tab, form feed, carriage
  return, space and the no-break space.\<close>

definition isSpace :: "char \<Rightarrow> bool" where
  "isSpace c = (code_of c \<in> {9, 10, 11, 12, 13, 32, 160})"

text \<open>Word characters (\<open>\w\<close>, used by \<open>\b\<close>): letters, digits and the underscore.\<close>

definition isWordChar :: "char \<Rightarrow> bool" where
  "isWordChar c = (let n = code_of c in
      (48 \<le> n \<and> n \<le> 57) \<or> (65 \<le> n \<and> n \<le> 90) \<or> (97 \<le> n \<and> n \<le> 122) \<or> n = 95)"

definition toLowerCase_char :: "char \<Rightarrow> char" where
  "toLowerCase_char c = (let n = code_of c in
      if (65 \<le> n \<and> n \<le> 90) \<or> (192 \<le> n \<and> n \<le> 222 \<and> n \<noteq> 215)
      then char_of (n + 32) else c)"

definition toUpperCase_char :: "char \<Rightarrow> char" where
  "toUpperCase_char c = (let n = code_of c in
      if (97 \<le> n \<and> n \<le> 122) \<or> (224 \<le> n \<and> n \<le> 254 \<and> n \<noteq> 247)
      then char_of (n - 32) else c)"

definition toLowerCase :: "string \<Rightarrow> string" where
  "toLowerCase s = map toLowerCase_char s"

definition toUpperCase :: "string \<Rightarrow> string" where
  "toUpperCase s = map toUpperCase_char s"

fun startsWith :: "string \<Rightarrow> string \<Rightarrow> bool" where
  "startsWith s [] = True"
| "startsWith [] (k # ks) = False"
| "startsWith (c # cs) (k # ks) = (c = k \<and> startsWith cs ks)"

text \<open>\<open>s.includes(k)\<close>: \<open>k\<close> occurs in \<open>s\<close> as a contiguous substring.\<close>

fun str_includes :: "string \<Rightarrow> string \<Rightarrow> bool" where
  "str_includes [] k = (k = [])"
| "str_includes (c # cs) k = (startsWith (c # cs) k \<or> str_includes cs k)"

text \<open>A chain \<open>s.includes(k1) || s.includes(k2) || ...\<close> over the keywords of a list.\<close>

definition any_includes :: "string \<Rightarrow> string list \<Rightarrow> bool" where
  "any_includes s ks = list_ex (str_includes s) ks"

definition trim :: "string \<Rightarrow> string" where
  "trim s = rev (dropWhile isSpace (rev (dropWhile isSpace s)))"

text \<open>\<open>s.split(' ').length\<close>: one more than the number of spaces.\<close>

definition split_space_length :: "string \<Rightarrow> nat" where
  "split_space_length s = Suc (length (filter (\<lambda>c. c = CHR '' '') s))"

text \<open>\<open>s.replace(',', '.')\<close> replaces the first comma only; \<open>s.replace(/,/g, '')\<close>
  removes every comma; \<open>s.replace(/\D/g, '')\<close> keeps the digits.\<close>

fun replace_first_comma :: "string \<Rightarrow> string" where
  "replace_first_comma [] = []"
| "replace_first_comma (c # cs) = (if c = CHR '','' then CHR ''.'' # cs else c # replace_first_comma cs)"

definition remove_commas :: "string \<Rightarrow> string" where
  "remove_commas s = filter (\<lambda>c. c \<noteq> CHR '','') s"

definition digits_only :: "string \<Rightarrow> string" where
  "digits_only s = filter isDigit s"

text \<open>
  \<open>parseInt\<close> and \<open>parseFloat\<close> on the strings the extractor passes: a capture of
  \<open>\d+\<close>, or of \<open>\d+(?:[.,]\d+)?\<close> with the comma replaced. \<open>parseFloat\<close> reads the
  longest prefix of the form digits, or digits, a dot and digits; a string that does not
  start with a digit gives \<open>None\<close> (NaN), which no capture does.
\<close>

definition digit_value :: "char \<Rightarrow> int" where
  "digit_value c = int (code_of c) - 48"

definition digits_value :: "string \<Rightarrow> int" where
  "digits_value ds = foldl (\<lambda>n c. 10 * n + digit_value c) 0 ds"

definition parseInt :: "string \<Rightarrow> number option" where
  "parseInt s =
     (let ds = takeWhile isDigit s
      in if ds = [] then None else Some (of_int (digits_value ds)))"

definition parseFloat :: "string \<Rightarrow> number option" where
  "parseFloat s =
     (let ds = takeWhile isDigit s; rest = dropWhile isDigit s
      in if ds = [] then None
         else (case rest of
                 c # cs \<Rightarrow>
                   if c = CHR ''.''
                   then (let fs = takeWhile isDigit cs
                         in Some (of_int (digits_value ds)
                                  + of_int (digits_value fs) / of_int (10 ^ length fs)))
                   else Some (of_int (digits_value ds))
               | [] \<Rightarrow> Some (of_int (digits_value ds))))"

section \<open>Regular expressions\<close>

text \<open>
  The patterns of the source are written as terms of \<open>regex\<close> and run by a backtracking
  matcher with the priorities of the JavaScript engine: alternatives are tried from left
  to right, quantifiers are greedy, and the first successful path is the match.
  \<^item> \<open>Chars s\<close>: the characters of \<open>s\<close> in sequence;
  \<^item> \<open>OneOf items\<close>: a character class, with single characters \<open>C\<close>, \<open>\d\<close> or
    \<open>0-9\<close> (\<open>Dig\<close>), \<open>\s\<close> (\<open>Spc\<close>), and the ranges \<open>a-z\<close> (\<open>LowerAZ\<close>) and \<open>A-Z\<close>
    (\<open>UpperAZ\<close>);
  \<^item> \<open>Cat\<close>, \<open>Alt\<close>: sequence and alternative;
  \<^item> \<open>Rep lo hi r\<close>: the greedy quantifier \<open>{lo,hi}\<close>, \<open>hi = None\<close> for no upper bound;
  \<^item> \<open>Group n r\<close>: the capturing group number \<open>n\<close>;
  \<^item> \<open>NegLook r\<close>: the negative lookahead \<open>(?!r)\<close>;
  \<^item> \<open>WordB\<close>, \<open>Bol\<close>, \<open>Eol\<close>: \<open>\b\<close>, \<open>^\<close> and \<open>$\<close>.
  The flag \<open>ci\<close> is the \<open>i\<close> flag: characters are compared up to case.
\<close>

datatype cls = C char | Dig | Spc | LowerAZ | UpperAZ

fun cls_has :: "cls \<Rightarrow> char \<Rightarrow> bool" where
  "cls_has (C a) c = (a = c)"
| "cls_has Dig c = isDigit c"
| "cls_has Spc c = isSpace c"
| "cls_has LowerAZ c = isLowerAZ c"
| "cls_has UpperAZ c = isUpperAZ c"

definition set_has :: "bool \<Rightarrow> cls list \<Rightarrow> char \<Rightarrow> bool" where
  "set_has ci items c =
     (if ci
      then list_ex (\<lambda>i. cls_has i (toLowerCase_char c) \<or> cls_has i (toUpperCase_char c)) items
      else list_ex (\<lambda>i. cls_has i c) items)"

datatype regex =
    Chars string
  | OneOf "cls list"
  | Cat regex regex
  | Alt regex regex
  | Rep nat "nat option" regex
  | Group nat regex
  | NegLook regex
  | WordB
  | Bol
  | Eol

fun rsize :: "regex \<Rightarrow> nat" where
  "rsize (Cat a b) = Suc (rsize a + rsize b)"
| "rsize (Alt a b) = Suc (rsize a + rsize b)"
| "rsize (Rep lo hi a) = Suc (rsize a)"
| "rsize (Group n a) = Suc (rsize a)"
| "rsize (NegLook a) = Suc (rsize a)"
| "rsize _ = 0"

text \<open>The state of the matcher: the character before the position (for \<open>\b\<close> and
  \<open>^\<close>) and the rest of the input. Captures are collected as (group, text) pairs.\<close>

type_synonym rstate = "char option \<times> string"

type_synonym captures = "(nat \<times> string) list"

fun chars_match :: "bool \<Rightarrow> string \<Rightarrow> rstate \<Rightarrow> rstate option" where
  "chars_match ci [] st = Some st"
| "chars_match ci (a # as) (p, []) = None"
| "chars_match ci (a # as) (p, c # cs) =
     (if (if ci then toUpperCase_char a = toUpperCase_char c else a = c)
      then chars_match ci as (Some c, cs) else None)"

fun dec_max :: "nat option \<Rightarrow> nat option" where
  "dec_max None = None"
| "dec_max (Some n) = Some (n - 1)"

text \<open>
  \<open>rmatch ci r st\<close> lists, in the order the engine tries them, the ways \<open>r\<close> matches at
  \<open>st\<close>: each with the state after the match and the captures made. An iteration of a
  quantifier that consumes nothing is only tried while the minimum is not reached.
\<close>

function rmatch :: "bool \<Rightarrow> regex \<Rightarrow> rstate \<Rightarrow> (rstate \<times> captures) list" where
  "rmatch ci (Chars as) st =
     (case chars_match ci as st of None \<Rightarrow> [] | Some st' \<Rightarrow> [(st', [])])"
| "rmatch ci (OneOf items) st =
     (case snd st of
        [] \<Rightarrow> []
      | c # cs \<Rightarrow> if set_has ci items c then [((Some c, cs), [])] else [])"
| "rmatch ci (Cat a b) st =
     concat (map (\<lambda>(st1, c1). map (\<lambda>(st2, c2). (st2, c1 @ c2)) (rmatch ci b st1))
               (rmatch ci a st))"
| "rmatch ci (Alt a b) st = rmatch ci a st @ rmatch ci b st"
| "rmatch ci (Rep lo hi a) st =
     (if hi = Some 0 then []
      else concat (map (\<lambda>(st1, c1).
             if length (snd st1) < length (snd st)
                \<or> (length (snd st1) = length (snd st) \<and> 0 < lo)
             then map (\<lambda>(st2, c2). (st2, c1 @ c2)) (rmatch ci (Rep (lo - 1) (dec_max hi) a) st1)
             else []) (rmatch ci a st)))
     @ (if lo = 0 then [(st, [])] else [])"
| "rmatch ci (Group n a) st =
     map (\<lambda>(st1, c1). (st1, c1 @ [(n, take (length (snd st) - length (snd st1)) (snd st))]))
       (rmatch ci a st)"
| "rmatch ci (NegLook a) st = (if rmatch ci a st = [] then [(st, [])] else [])"
| "rmatch ci WordB st =
     (let w_prev = (case fst st of None \<Rightarrow> False | Some c \<Rightarrow> isWordChar c);
          w_next = (case snd st of [] \<Rightarrow> False | c # cs \<Rightarrow> isWordChar c)
      in if w_prev \<noteq> w_next then [(st, [])] else [])"
| "rmatch ci Bol st = (if fst st = None then [(st, [])] else [])"
| "rmatch ci Eol st = (if snd st = [] then [(st, [])] else [])"
  by pat_completeness auto
termination
  by (relation "measures [\<lambda>(ci, r, st). rsize r, \<lambda>(ci, r, st). length (snd st),
                          \<lambda>(ci, r, st). (case r of Rep lo hi a \<Rightarrow> lo | _ \<Rightarrow> 0)]") auto

text \<open>The result of \<open>String.prototype.match\<close> without the \<open>g\<close> flag: the index of the
  leftmost match, the matched text (\<open>match[0]\<close>) and the captures.\<close>

record rmatch_result =
  m_index :: nat
  m_text :: string
  m_groups :: captures

fun rsearch :: "bool \<Rightarrow> regex \<Rightarrow> char option \<Rightarrow> string \<Rightarrow> nat \<Rightarrow> rmatch_result option" where
  "rsearch ci r p [] i =
     (case rmatch ci r (p, []) of
        [] \<Rightarrow> None
      | (st1, caps) # rest \<Rightarrow> Some \<lparr>m_index = i, m_text = [], m_groups = caps\<rparr>)"
| "rsearch ci r p (c # cs) i =
     (case rmatch ci r (p, c # cs) of
        [] \<Rightarrow> rsearch ci r (Some c) cs (Suc i)
      | (st1, caps) # rest \<Rightarrow>
          Some \<lparr>m_index = i, m_text = take (length (c # cs) - length (snd st1)) (c # cs),
                m_groups = caps\<rparr>)"

definition str_match :: "string \<Rightarrow> bool \<Rightarrow> regex \<Rightarrow> rmatch_result option" where
  "str_match s ci r = rsearch ci r None s 0"

definition rx_test :: "bool \<Rightarrow> regex \<Rightarrow> string \<Rightarrow> bool" where
  "rx_test ci r s = (str_match s ci r \<noteq> None)"

text \<open>\<open>match[n]\<close> for a group that took part in the match.\<close>

definition m_group :: "rmatch_result \<Rightarrow> nat \<Rightarrow> string" where
  "m_group m n = (case map_of (rev (m_groups m)) n of None \<Rightarrow> [] | Some t \<Rightarrow> t)"

text \<open>Abbreviations for writing patterns.\<close>

definition rx_cat :: "regex list \<Rightarrow> regex" where
  "rx_cat rs = foldr Cat rs (Chars [])"

fun rx_alt :: "regex list \<Rightarrow> regex" where
  "rx_alt [] = NegLook (Chars [])"
| "rx_alt [r] = r"
| "rx_alt (r # rs) = Alt r (rx_alt rs)"

definition rx_opt :: "regex \<Rightarrow> regex" where
  "rx_opt r = Rep 0 (Some 1) r"

definition rx_star :: "regex \<Rightarrow> regex" where
  "rx_star r = Rep 0 None r"

definition rx_plus :: "regex \<Rightarrow> regex" where
  "rx_plus r = Rep 1 None r"

definition rx_d :: regex where
  "rx_d = OneOf [Dig]"

definition rx_s :: regex where
  "rx_s = OneOf [Spc]"

definition rx_words :: "string list \<Rightarrow> regex" where
  "rx_words ws = rx_alt (map Chars ws)"

text \<open>\<open>\d+(?:[.,]\d+)?\<close> and \<open>[\s-]?\<close>, which several patterns share.\<close>

definition rx_number :: regex where
  "rx_number = rx_cat [rx_plus rx_d, rx_opt (rx_cat [OneOf [C (CHR ''.''), C (CHR '','')], rx_plus rx_d])]"

definition rx_sep :: regex where
  "rx_sep = rx_opt (OneOf [Spc, C (CHR ''-'')])"

section \<open>Pricing engine\<close>

subsection \<open>Type definitions\<close>

datatype ServiceType = Hardscaping | Decking | Softscaping | Mowing | Planting | Fencing | Framing

datatype MaterialTier = Standard | Premium | Luxury

datatype SlopeLevel = Flat | Moderate | Steep

datatype SubBaseType = Dirt | Hardscape

text \<open>
  \<open>ProjectInputs\<close>. The fields carry the prefix \<open>in_\<close> because the conversation state
  uses the same field names. The optional \<open>deckHeight_m?\<close> is an option.
\<close>

record ProjectInputs =
  in_service :: ServiceType
  in_hasExcavatorAccess :: bool
  in_hasDrivewayForSkip :: bool
  in_slopeLevel :: SlopeLevel
  in_subBaseType :: SubBaseType
  in_existingDemolition :: bool
  in_length_m :: number
  in_width_m :: number
  in_area_m2 :: number
  in_materialTier :: MaterialTier
  in_deckHeight_m :: "number option"

datatype LineItemKind = Material | Labor | Surcharge | Fee

text \<open>
  The label of a line item. The source builds the labels as strings; every string the
  engine can produce is one constructor here:
  \<^item> \<open>MaterialLabel s t\<close>: the material name of service \<open>s\<close> and tier \<open>t\<close>;
  \<^item> \<open>LaborRestricted\<close>: "Labor (restricted access - 1.45x multiplier)";
  \<^item> \<open>LaborCrew\<close>: "Labor (crew + equipment)";
  \<^item> \<open>CouncilPermit\<close>: "Council permit surcharge";
  \<^item> \<open>SlopeGrading\<close>: "Slope grading (>15 degrees)";
  \<^item> \<open>DemolitionWaste n\<close>: "Demolition waste (n skips)";
  \<^item> \<open>Scaffolding\<close>: "High-altitude scaffolding";
  \<^item> \<open>ProjectManagement\<close>, \<open>Contingency\<close>, \<open>NetProfit\<close>: the three business fees.
  The free-text \<open>note\<close> of a line item and the surveyor's \<open>reasoning\<close> are formatted
  text derived from the same numbers and are not modelled.
\<close>

datatype LineItemLabel =
    MaterialLabel ServiceType MaterialTier
  | LaborRestricted
  | LaborCrew
  | CouncilPermit
  | SlopeGrading
  | DemolitionWaste number
  | Scaffolding
  | ProjectManagement
  | Contingency
  | NetProfit

record LineItem =
  label :: LineItemLabel
  amount :: number
  kind :: LineItemKind

datatype ProjectStatus = VIP_PRIORITY | StandardStatus

record EstimateResult =
  lowerBound :: number
  estimate :: number
  upperBound :: number
  lineItems :: "LineItem list"
  projectStatus :: ProjectStatus

subsection \<open>UK 2026 price book\<close>

fun UK_2026_RATES_rate :: "ServiceType \<Rightarrow> MaterialTier \<Rightarrow> number" where
  "UK_2026_RATES_rate Hardscaping Standard = 95"
| "UK_2026_RATES_rate Hardscaping Premium = 125"
| "UK_2026_RATES_rate Hardscaping Luxury = 155"
| "UK_2026_RATES_rate Decking Standard = 105"
| "UK_2026_RATES_rate Decking Premium = 180"
| "UK_2026_RATES_rate Decking Luxury = 240"
| "UK_2026_RATES_rate Softscaping Standard = 45"
| "UK_2026_RATES_rate Softscaping Premium = 75"
| "UK_2026_RATES_rate Softscaping Luxury = 110"
| "UK_2026_RATES_rate Mowing Standard = 45"
| "UK_2026_RATES_rate Mowing Premium = 65"
| "UK_2026_RATES_rate Mowing Luxury = 95"
| "UK_2026_RATES_rate Planting Standard = 45"
| "UK_2026_RATES_rate Planting Premium = 95"
| "UK_2026_RATES_rate Planting Luxury = 150"
| "UK_2026_RATES_rate Fencing Standard = 75"
| "UK_2026_RATES_rate Fencing Premium = 125"
| "UK_2026_RATES_rate Fencing Luxury = 185"
| "UK_2026_RATES_rate Framing Standard = 350"
| "UK_2026_RATES_rate Framing Premium = 550"
| "UK_2026_RATES_rate Framing Luxury = 850"

definition LABOR_RATE_PER_HOUR_GBP :: number where
  "LABOR_RATE_PER_HOUR_GBP = 85"

definition SURCHARGES_councilPermit :: number where
  "SURCHARGES_councilPermit = 60"

definition SURCHARGES_steepSlopeGrading :: number where
  "SURCHARGES_steepSlopeGrading = 8000"

definition SURCHARGES_highAltitudeScaffolding :: number where
  "SURCHARGES_highAltitudeScaffolding = 1800"

definition SURCHARGES_skipLoad :: number where
  "SURCHARGES_skipLoad = 350"

definition BUSINESS_FEES_projectManagement :: number where
  "BUSINESS_FEES_projectManagement = 10 / 100"

definition BUSINESS_FEES_contingency :: number where
  "BUSINESS_FEES_contingency = 5 / 100"

definition BUSINESS_FEES_netProfit :: number where
  "BUSINESS_FEES_netProfit = 15 / 100"

subsection \<open>Helper functions\<close>

fun baseRates :: "ServiceType \<Rightarrow> number" where
  "baseRates Hardscaping = double (5 / 10)"
| "baseRates Decking = double (6 / 10)"
| "baseRates Softscaping = double (3 / 10)"
| "baseRates Mowing = double (8 / 100)"
| "baseRates Planting = double (4 / 10)"
| "baseRates Fencing = double (25 / 100)"
| "baseRates Framing = double (8 / 10)"

definition estimateLaborHours :: "number \<Rightarrow> ServiceType \<Rightarrow> number" where
  "estimateLaborHours area service = times64 area (baseRates service)"

definition WOOD_DENSITY_TONS_PER_M3 :: number where
  "WOOD_DENSITY_TONS_PER_M3 = 6 / 10"

definition AVERAGE_THICKNESS_M :: number where
  "AVERAGE_THICKNESS_M = 15 / 100"

text \<open>The constant of the code: one ton per skip ("conservative estimate for dense debris").\<close>

definition TONS_PER_SKIP :: number where
  "TONS_PER_SKIP = 1"

definition calculateSkipLoads :: "number \<Rightarrow> number" where
  "calculateSkipLoads area =
     (let volume_m3 = area * AVERAGE_THICKNESS_M;
          weight_tons = volume_m3 * WOOD_DENSITY_TONS_PER_M3
      in Math_ceil (weight_tons / TONS_PER_SKIP))"

definition roundGBP :: "number \<Rightarrow> number" where
  "roundGBP v = Math_round v"

definition determineProjectStatus :: "number \<Rightarrow> ProjectStatus" where
  "determineProjectStatus est = (if est > 5000 then VIP_PRIORITY else StandardStatus)"

subsection \<open>Cumulative calculation model\<close>

text \<open>
  The steps of \<open>calculateUKEstimate\<close>, in the order of the source. The list of line items is
  built by appending, as the source pushes them. \<open>inputs.deckHeight_m && inputs.deckHeight_m > 1.5\<close>
  holds exactly when the height is present and above 1.5.
\<close>

definition materialLineItem :: "ProjectInputs \<Rightarrow> LineItem" where
  "materialLineItem inputs =
     (let materialRate = UK_2026_RATES_rate (in_service inputs) (in_materialTier inputs);
          baseMaterialCost = times64 (in_area_m2 inputs) materialRate
      in \<lparr>label = MaterialLabel (in_service inputs) (in_materialTier inputs),
          amount = roundGBP baseMaterialCost, kind = Material\<rparr>)"

definition laborLineItem :: "ProjectInputs \<Rightarrow> LineItem" where
  "laborLineItem inputs =
     (let laborHours = estimateLaborHours (in_area_m2 inputs) (in_service inputs);
          laborCost = times64 laborHours LABOR_RATE_PER_HOUR_GBP
      in if \<not> in_hasExcavatorAccess inputs
         then \<lparr>label = LaborRestricted,
               amount = roundGBP (times64 laborCost (double (145 / 100))), kind = Labor\<rparr>
         else \<lparr>label = LaborCrew, amount = roundGBP laborCost, kind = Labor\<rparr>)"

definition surchargeLineItems :: "ProjectInputs \<Rightarrow> LineItem list" where
  "surchargeLineItems inputs =
     (if \<not> in_hasDrivewayForSkip inputs
      then [\<lparr>label = CouncilPermit, amount = SURCHARGES_councilPermit, kind = Surcharge\<rparr>]
      else [])
     @ (if in_slopeLevel inputs = Steep
        then [\<lparr>label = SlopeGrading, amount = SURCHARGES_steepSlopeGrading, kind = Surcharge\<rparr>]
        else [])
     @ (if in_existingDemolition inputs
        then (let skipLoads = calculateSkipLoads (in_area_m2 inputs);
                  skipCost = skipLoads * SURCHARGES_skipLoad
              in [\<lparr>label = DemolitionWaste skipLoads, amount = skipCost, kind = Surcharge\<rparr>])
        else [])
     @ (case in_deckHeight_m inputs of
          None \<Rightarrow> []
        | Some h \<Rightarrow>
            if h \<noteq> 0 \<and> h > 15 / 10
            then [\<lparr>label = Scaffolding, amount = SURCHARGES_highAltitudeScaffolding,
                   kind = Surcharge\<rparr>]
            else [])"

definition calculateUKEstimate :: "ProjectInputs \<Rightarrow> EstimateResult" where
  "calculateUKEstimate inputs =
     (let items = [materialLineItem inputs, laborLineItem inputs] @ surchargeLineItems inputs;
          subtotal = foldl (\<lambda>sum item. sum + amount item) 0 items;
          projectManagement = roundGBP (subtotal * BUSINESS_FEES_projectManagement);
          contingency = roundGBP (subtotal * BUSINESS_FEES_contingency);
          netProfit = roundGBP (subtotal * BUSINESS_FEES_netProfit);
          finalCost = subtotal + projectManagement + contingency + netProfit;
          est = roundGBP finalCost
      in \<lparr>lowerBound = roundGBP (finalCost * (90 / 100)),
          estimate = est,
          upperBound = roundGBP (finalCost * (110 / 100)),
          lineItems = items @
            [\<lparr>label = ProjectManagement, amount = projectManagement, kind = Fee\<rparr>,
             \<lparr>label = Contingency, amount = contingency, kind = Fee\<rparr>,
             \<lparr>label = NetProfit, amount = netProfit, kind = Fee\<rparr>],
          projectStatus = determineProjectStatus est\<rparr>)"

section \<open>Conversation manager\<close>

subsection \<open>Types\<close>

datatype ChatRole = Agent | User | Estimate

record ChatMessage =
  cm_id :: string
  cm_role :: ChatRole
  cm_content :: string
  cm_timestamp :: nat

text \<open>\<open>ConversationState\<close>: a field of type \<open>T | null\<close> is a \<open>T option\<close>, \<open>None\<close> for
  \<open>null\<close>. \<open>retryCount\<close> is a map from field names to counts.\<close>

record ConversationState =
  service :: "ServiceType option"
  area_m2 :: "number option"
  length_m :: "number option"
  width_m :: "number option"
  materialTier :: "MaterialTier option"
  hasExcavatorAccess :: "bool option"
  hasDrivewayForSkip :: "bool option"
  slopeLevel :: "SlopeLevel option"
  subBaseType :: "SubBaseType option"
  existingDemolition :: "bool option"
  deckHeight_m :: "number option"
  overgrown :: "bool option"
  gateCount :: "number option"
  wantsDrainage :: "bool option"
  wantsLedLighting :: "bool option"
  messageHistory :: "ChatMessage list"
  certaintyLevel :: number
  awaitingEstimate :: bool
  retryCount :: "string \<Rightarrow> number option"
  lastQuestionField :: "string option"
  showQuickReplies :: bool
  budgetAligns :: "bool option"
  contactPhone :: "string option"
  contactEmail :: "string option"
  fullName :: "string option"
  userBudget :: "number option"
  postalCode :: "string option"
  projectStartTiming :: "string option"
  groundSoilType :: "string option"

text \<open>\<open>ExtractedInfo\<close>: an optional field \<open>f?: T\<close> is a \<open>T option\<close>, \<open>None\<close> for
  \<open>undefined\<close>. The fields carry the prefix \<open>x_\<close>.\<close>

record ExtractedInfo =
  x_service :: "ServiceType option"
  x_area_m2 :: "number option"
  x_length_m :: "number option"
  x_width_m :: "number option"
  x_materialTier :: "MaterialTier option"
  x_hasExcavatorAccess :: "bool option"
  x_hasDrivewayForSkip :: "bool option"
  x_slopeLevel :: "SlopeLevel option"
  x_subBaseType :: "SubBaseType option"
  x_existingDemolition :: "bool option"
  x_deckHeight_m :: "number option"
  x_overgrown :: "bool option"
  x_gateCount :: "number option"
  x_wantsDrainage :: "bool option"
  x_wantsLedLighting :: "bool option"
  x_budgetAligns :: "bool option"
  x_fullName :: "string option"
  x_userBudget :: "number option"
  x_postalCode :: "string option"
  x_contactEmail :: "string option"
  x_contactPhone :: "string option"
  x_projectStartTiming :: "string option"
  x_groundSoilType :: "string option"
  x_explicitBudget :: "bool option"

subsection \<open>Initial state\<close>

definition createInitialState :: ConversationState where
  "createInitialState =
     \<lparr>service = None, area_m2 = None, length_m = None, width_m = None, materialTier = None,
      hasExcavatorAccess = None, hasDrivewayForSkip = None, slopeLevel = None,
      subBaseType = None, existingDemolition = None, deckHeight_m = None, overgrown = None,
      gateCount = None, wantsDrainage = None, wantsLedLighting = None, messageHistory = [],
      certaintyLevel = 0, awaitingEstimate = False, retryCount = (\<lambda>k. None),
      lastQuestionField = None, showQuickReplies = False, budgetAligns = None,
      contactPhone = None, contactEmail = None, fullName = None, userBudget = None,
      postalCode = None, projectStartTiming = None, groundSoilType = None\<rparr>"

subsection \<open>Certainty calculation\<close>

definition calculateCertainty :: "ConversationState \<Rightarrow> number" where
  "calculateCertainty state =
     (let score1 = (if service state \<noteq> None then 25 else 0);
          score2 = score1 +
            (if truthy_num (area_m2 state)
                \<or> (truthy_num (length_m state) \<and> truthy_num (width_m state))
             then 30 else 0);
          score3 = score2 + (if materialTier state \<noteq> None then 20 else 0);
          maxScore3 = 25 + 30 + 20;
          (score, maxScore) =
            (if service state = Some Mowing
             then (score3 + (if overgrown state \<noteq> None then 25 else 0), maxScore3 + 25)
             else if service state = Some Planting \<or> service state = Some Softscaping
             then (score3 + (if slopeLevel state \<noteq> None then 5 else 0)
                          + (if hasDrivewayForSkip state \<noteq> None then 5 else 0),
                   maxScore3 + 10)
             else (score3 + (if hasExcavatorAccess state \<noteq> None then 10 else 0)
                          + (if hasDrivewayForSkip state \<noteq> None then 5 else 0)
                          + (if slopeLevel state \<noteq> None then 5 else 0)
                          + (if existingDemolition state \<noteq> None then 5 else 0),
                   maxScore3 + 10 + 5 + 5 + 5))
      in Math_round ((score / maxScore) * 100))"

subsection \<open>Retry tracking helpers\<close>

definition excavationServices :: "ServiceType list" where
  "excavationServices = [Hardscaping, Decking, Fencing, Framing]"

definition heavyWorkServices :: "ServiceType list" where
  "heavyWorkServices = [Hardscaping, Decking, Fencing, Framing, Softscaping]"

text \<open>\<open>state.service && list.includes(state.service)\<close>.\<close>

definition service_in :: "ServiceType option \<Rightarrow> ServiceType list \<Rightarrow> bool" where
  "service_in s l = (case s of None \<Rightarrow> False | Some v \<Rightarrow> v \<in> set l)"

definition detectCurrentField :: "ConversationState \<Rightarrow> string" where
  "detectCurrentField state =
     (if service state = None then ''service''
      else if \<not> truthy_num (area_m2 state) \<and> \<not> truthy_num (length_m state)
              \<and> \<not> truthy_num (width_m state) then ''dimensions''
      else if materialTier state = None then ''materialTier''
      else if hasExcavatorAccess state = None \<and> service_in (service state) excavationServices
      then ''excavatorAccess''
      else if service state = Some Decking \<and> deckHeight_m state = None then ''deckHeight''
      else if service state = Some Mowing \<and> overgrown state = None then ''overgrown''
      else if service state = Some Fencing \<and> gateCount state = None then ''gateCount''
      else if hasDrivewayForSkip state = None \<and> service_in (service state) heavyWorkServices
      then ''driveway''
      else if slopeLevel state = None \<and> service_in (service state) heavyWorkServices
      then ''slope''
      else if existingDemolition state = None
              \<and> (service state = Some Hardscaping \<or> service state = Some Decking)
      then ''demolition''
      else if \<not> truthy_str (fullName state) then ''fullName''
      else if \<not> truthy_str (contactPhone state) then ''contactPhone''
      else if \<not> truthy_str (contactEmail state) then ''contactEmail''
      else if userBudget state = None then ''userBudget''
      else if \<not> truthy_str (postalCode state) then ''postalCode''
      else ''unknown'')"

subsection \<open>State update\<close>

text \<open>The strict UK postcode pattern \<open>/^[A-Z]{1,2}\d{1,2}[A-Z]?\s?\d[A-Z]{2}$/i\<close>.\<close>

definition strictUkPattern :: regex where
  "strictUkPattern =
     rx_cat [Bol, Rep 1 (Some 2) (OneOf [UpperAZ]), Rep 1 (Some 2) rx_d,
             rx_opt (OneOf [UpperAZ]), rx_opt rx_s, rx_d,
             Rep 2 (Some 2) (OneOf [UpperAZ]), Eol]"

text \<open>
  \<open>updateStateWithExtraction\<close>. The source copies the state into \<open>updated\<close> and runs a
  sequence of guarded assignments \<open>if (c) updated.f = v\<close>; \<open>assign_if c f u\<close> is one of
  them, applied to the copy \<open>u\<close>. \<open>u1\<close>, \<open>u2\<close>, ... are the copy after each assignment, in
  the order of the source. A condition reads \<open>state\<close> (the argument) or the copy exactly
  where the source does; nested conditions are written as a conjunction.
\<close>

definition assign_if :: "bool \<Rightarrow> ('s \<Rightarrow> 's) \<Rightarrow> 's \<Rightarrow> 's" where
  "assign_if c f u = (if c then f u else u)"

text \<open>\<open>a > k\<close> and \<open>a < k\<close> for a nullable number: false for \<open>null\<close> and \<open>undefined\<close>
  where the source guards the comparison by the truthiness of \<open>a\<close>.\<close>

definition num_gt :: "number option \<Rightarrow> number \<Rightarrow> bool" where
  "num_gt a k = (case a of None \<Rightarrow> False | Some v \<Rightarrow> v > k)"

definition num_lt :: "number option \<Rightarrow> number \<Rightarrow> bool" where
  "num_lt a k = (case a of None \<Rightarrow> False | Some v \<Rightarrow> v < k)"

definition num_times :: "number option \<Rightarrow> number option \<Rightarrow> number option" where
  "num_times a b = (case (a, b) of (Some l, Some w) \<Rightarrow> Some (l * w) | _ \<Rightarrow> None)"

text \<open>\<open>state.lastQuestionField || detectCurrentField(state)\<close>\<close>

definition currentField_of :: "ConversationState \<Rightarrow> string" where
  "currentField_of state =
     (case lastQuestionField state of
        None \<Rightarrow> detectCurrentField state
      | Some f \<Rightarrow> if f \<noteq> [] then f else detectCurrentField state)"

text \<open>\<open>extracted.fullName.toLowerCase().includes('name is')\<close> and
  \<open>strictUkPattern.test(extracted.postalCode)\<close>, both under a guard that the field is set.\<close>

definition name_is_phrase :: "string option \<Rightarrow> bool" where
  "name_is_phrase n = (case n of None \<Rightarrow> False | Some t \<Rightarrow> str_includes (toLowerCase t) ''name is'')"

definition isStrictPostcode :: "string option \<Rightarrow> bool" where
  "isStrictPostcode pc = (case pc of None \<Rightarrow> False | Some t \<Rightarrow> rx_test True strictUkPattern t)"

definition updateStateWithExtraction :: "ConversationState \<Rightarrow> ExtractedInfo \<Rightarrow> ConversationState" where
  "updateStateWithExtraction state extracted =
     (let u1 = assign_if (x_service extracted \<noteq> None)
                 (\<lambda>u. u\<lparr>service := x_service extracted\<rparr>) state;
          isDimensionsQuestion =
            (lastQuestionField state = Some ''dimensions'' \<or> \<not> truthy_num (area_m2 state));
          u2 = assign_if (truthy_num (x_area_m2 extracted)
                          \<and> \<not> (truthy_num (area_m2 state) \<and> num_gt (area_m2 state) 2
                                 \<and> num_lt (x_area_m2 extracted) 2 \<and> \<not> isDimensionsQuestion))
                 (\<lambda>u. u\<lparr>area_m2 := x_area_m2 extracted\<rparr>) u1;
          u3 = assign_if (truthy_num (x_length_m extracted))
                 (\<lambda>u. u\<lparr>length_m := x_length_m extracted\<rparr>) u2;
          u4 = assign_if (truthy_num (x_width_m extracted))
                 (\<lambda>u. u\<lparr>width_m := x_width_m extracted\<rparr>) u3;
          u5 = assign_if (x_materialTier extracted \<noteq> None)
                 (\<lambda>u. u\<lparr>materialTier := x_materialTier extracted\<rparr>) u4;
          u6 = assign_if (x_hasExcavatorAccess extracted \<noteq> None)
                 (\<lambda>u. u\<lparr>hasExcavatorAccess := x_hasExcavatorAccess extracted\<rparr>) u5;
          u7 = assign_if (x_hasDrivewayForSkip extracted \<noteq> None)
                 (\<lambda>u. u\<lparr>hasDrivewayForSkip := x_hasDrivewayForSkip extracted\<rparr>) u6;
          u8 = assign_if (x_slopeLevel extracted \<noteq> None)
                 (\<lambda>u. u\<lparr>slopeLevel := x_slopeLevel extracted\<rparr>) u7;
          u9 = assign_if (x_subBaseType extracted \<noteq> None)
                 (\<lambda>u. u\<lparr>subBaseType := x_subBaseType extracted\<rparr>) u8;
          u10 = assign_if (x_existingDemolition extracted \<noteq> None)
                  (\<lambda>u. u\<lparr>existingDemolition := x_existingDemolition extracted\<rparr>) u9;
          u11 = assign_if (x_deckHeight_m extracted \<noteq> None
                           \<and> (service state = Some Decking \<or> x_service extracted = Some Decking))
                  (\<lambda>u. u\<lparr>deckHeight_m := x_deckHeight_m extracted\<rparr>) u10;
          u12 = assign_if (x_overgrown extracted \<noteq> None)
                  (\<lambda>u. u\<lparr>overgrown := x_overgrown extracted\<rparr>) u11;
          u13 = assign_if (truthy_num (x_gateCount extracted))
                  (\<lambda>u. u\<lparr>gateCount := x_gateCount extracted\<rparr>) u12;
          u14 = assign_if (x_wantsDrainage extracted \<noteq> None)
                  (\<lambda>u. u\<lparr>wantsDrainage := x_wantsDrainage extracted\<rparr>) u13;
          u15 = assign_if (x_wantsLedLighting extracted \<noteq> None)
                  (\<lambda>u. u\<lparr>wantsLedLighting := x_wantsLedLighting extracted\<rparr>) u14;
          u16 = assign_if (x_budgetAligns extracted \<noteq> None)
                  (\<lambda>u. u\<lparr>budgetAligns := x_budgetAligns extracted\<rparr>) u15;
          currentField = currentField_of state;
          isNameQuestion = (currentField = ''fullName'');
          u17 = assign_if (truthy_str (x_fullName extracted)
                           \<and> (isNameQuestion \<or> name_is_phrase (x_fullName extracted)))
                  (\<lambda>u. u\<lparr>fullName := x_fullName extracted\<rparr>) u16;
          isBudgetQuestion = (currentField = ''userBudget'');
          u18 = assign_if (x_userBudget extracted \<noteq> None
                           \<and> (isBudgetQuestion \<or> x_explicitBudget extracted = Some True))
                  (\<lambda>u. u\<lparr>userBudget := x_userBudget extracted\<rparr>) u17;
          u19 = assign_if (truthy_str (x_contactEmail extracted))
                  (\<lambda>u. u\<lparr>contactEmail := x_contactEmail extracted\<rparr>) u18;
          u20 = assign_if (truthy_str (x_contactPhone extracted))
                  (\<lambda>u. u\<lparr>contactPhone := x_contactPhone extracted\<rparr>) u19;
          isStrict = isStrictPostcode (x_postalCode extracted);
          u21 = assign_if (truthy_str (x_postalCode extracted)
                           \<and> (isStrict \<or> currentField = ''postalCode''))
                  (\<lambda>u. u\<lparr>postalCode := x_postalCode extracted\<rparr>) u20;
          u22 = assign_if (truthy_str (x_projectStartTiming extracted))
                  (\<lambda>u. u\<lparr>projectStartTiming := x_projectStartTiming extracted\<rparr>) u21;
          u23 = assign_if (truthy_str (x_groundSoilType extracted))
                  (\<lambda>u. u\<lparr>groundSoilType := x_groundSoilType extracted\<rparr>) u22;
          u24 = assign_if (truthy_num (length_m u23) \<and> truthy_num (width_m u23)
                           \<and> \<not> truthy_num (area_m2 u23))
                  (\<lambda>u. u\<lparr>area_m2 := num_times (length_m u) (width_m u)\<rparr>) u23
      in u24\<lparr>certaintyLevel := calculateCertainty u24\<rparr>)"

subsection \<open>Ready for estimate\<close>

definition heavyAccessServices :: "ServiceType list" where
  "heavyAccessServices = [Hardscaping, Decking, Fencing, Framing]"

definition groundServices :: "ServiceType list" where
  "groundServices = [Hardscaping, Decking, Softscaping, Framing]"

definition isReadyForEstimate :: "ConversationState \<Rightarrow> bool" where
  "isReadyForEstimate state =
     (if userBudget state = None \<or> postalCode state = None then False
      else if hasExcavatorAccess state = None \<and> service_in (service state) heavyAccessServices
      then False
      else if slopeLevel state = None \<and> service_in (service state) groundServices then False
      else if service state = Some Fencing \<and> gateCount state = None then False
      else if service state = Some Decking \<and> deckHeight_m state = None then False
      else certaintyLevel state \<ge> 85)"

text \<open>The older copy of the conversation manager kept in the repository, whose state has
  a budget but no postcode, tests the certainty level only.\<close>

definition isReadyForEstimate_legacy :: "ConversationState \<Rightarrow> bool" where
  "isReadyForEstimate_legacy state = (certaintyLevel state \<ge> 85)"

section \<open>Local extraction\<close>

text \<open>
  \<open>extractLocalInformation\<close> is one function that fills the fields of the result block
  after block. Each block is a definition here, named after the field it fills; a block
  takes the raw message \<open>userMessage\<close>, its lower-case form \<open>msg\<close>, or both, as the source
  reads them, and the few values of earlier blocks it depends on. The keyword lists are
  in the order of the source.
\<close>

subsection \<open>Generic short replies\<close>

definition isAffirmative :: "string \<Rightarrow> bool" where
  "isAffirmative msg =
     (msg = ''yes'' \<or> msg = ''yep'' \<or> msg = ''yeah'' \<or> msg = ''yeh'' \<or> msg = ''ye''
      \<or> msg = ''sure'' \<or> msg = ''ok''
      \<or> any_includes msg [''yeah'', ''definitely'', ''absolutely'', ''of course''])"

definition isNegative :: "string \<Rightarrow> bool" where
  "isNegative msg =
     (msg = ''no'' \<or> msg = ''nope'' \<or> msg = ''nah'' \<or> msg = ''na''
      \<or> any_includes msg [''no '', ''not really''])"

subsection \<open>Service detection\<close>

definition hardscapingKeywords :: "string list" where
  "hardscapingKeywords =
     [''patio'', ''paving'', ''hardscape'', ''paty'', ''patyo'', ''pato'', ''paio'',
      ''pavimg'', ''pavong'', ''pavin'', ''pavng'', ''hardlanscing'', ''hardlscaping'',
      ''hardscpaing'', ''ptio'', ''pving'', ''pavng'', ''payshio'', ''payving'', ''paytio'',
      ''pave'', ''paver'', ''brick'', ''stone paving'', ''stone work'', ''stonework'',
      ''slab'', ''flag'', ''yard'', ''courtyard'', ''terrace'', ''flagstone'']"

definition deckingKeywords :: "string list" where
  "deckingKeywords =
     [''deck'', ''deckling'', ''dekcing'', ''deking'', ''deckin'', ''dck'', ''dek'', ''decc'',
      ''dekk'', ''deeking'', ''wood platform'', ''timber platform'', ''raised platform'']"

definition mowingKeywords :: "string list" where
  "mowingKeywords =
     [''mow'', ''lawn'', ''grass'', ''cut'', ''cutting'', ''trim'', ''moww'', ''moing'',
      ''mowin'', ''mawing'', ''lwn'', ''lwan'', ''gras'', ''grss'', ''moe'', ''moh'',
      ''cut the grass'', ''trim the lawn'', ''grass cutting'', ''lawn care'',
      ''garden maintenance'', ''keep tidy'']"

definition plantingKeywords :: "string list" where
  "plantingKeywords =
     [''plant'', ''flower'', ''shrub'', ''bed'', ''border'', ''plnat'', ''plantng'', ''palnt'',
      ''planting'', ''flowr'', ''flowrs'', ''shrbs'', ''planter'', ''vegetation'',
      ''greenery'', ''flower bed'', ''herbaceous'', ''perennial'']"

definition fencingKeywords :: "string list" where
  "fencingKeywords =
     [''fence'', ''fencing'', ''hedge'', ''hedging'', ''boundary'', ''fense'', ''fance'',
      ''fencng'', ''fencig'', ''hegde'', ''hdge'', ''panel'', ''privacy screen'',
      ''enclosure'', ''barrier'', ''perimeter'']"

definition framingKeywords :: "string list" where
  "framingKeywords =
     [''pergola'', ''frame'', ''structure'', ''gazebo'', ''arbor'', ''pergolla'', ''pergla'',
      ''pergola'', ''gazbo'', ''gazzebo'', ''arbour'', ''overhead'', ''canopy'', ''trellis'',
      ''archway'', ''outdoor structure'']"

definition softscapingKeywords :: "string list" where
  "softscapingKeywords =
     [''landscape'', ''garden'', ''landscaping'', ''land scape'', ''land scaping'',
      ''soft scape'', ''soft scaping'', ''landscpaing'', ''landscpe'', ''lanscaping'',
      ''gardn'', ''gardning'', ''gardan'', ''outdoor space'', ''garden design'',
      ''outdoor design'', ''green space'', ''garden transformation'']"

definition extract_service :: "string \<Rightarrow> ServiceType option" where
  "extract_service msg =
     (if any_includes msg hardscapingKeywords then Some Hardscaping
      else if any_includes msg deckingKeywords then Some Decking
      else if any_includes msg mowingKeywords then Some Mowing
      else if any_includes msg plantingKeywords then Some Planting
      else if any_includes msg fencingKeywords then Some Fencing
      else if any_includes msg framingKeywords then Some Framing
      else if any_includes msg softscapingKeywords then Some Softscaping
      else None)"

subsection \<open>Dimensions, deck height and area\<close>

text \<open>
  \<open>/(\d+(?:[.,]\d+)?)\s*(?:m|meter|metre)?\s*(?:x|by|[0xD7])\s*(\d+(?:[.,]\d+)?)\s*(?:m|meter|metre)?/i\<close>
  and \<open>/(\d+(?:[.,]\d+)?)\s*m\s*(?:x|by|[0xD7])\s*(\d+(?:[.,]\d+)?)/i\<close>, where [0xD7] is
  the multiplication sign.
\<close>

definition dimensionPatterns :: "regex list" where
  "dimensionPatterns =
     [rx_cat [Group 1 rx_number, rx_star rx_s, rx_opt (rx_words [''m'', ''meter'', ''metre'']),
              rx_star rx_s, rx_words [''x'', ''by'', [CHR 0xD7]], rx_star rx_s,
              Group 2 rx_number, rx_star rx_s, rx_opt (rx_words [''m'', ''meter'', ''metre''])],
      rx_cat [Group 1 rx_number, rx_star rx_s, Chars ''m'', rx_star rx_s,
              rx_words [''x'', ''by'', [CHR 0xD7]], rx_star rx_s, Group 2 rx_number]]"

text \<open>The loop over the patterns: the first pattern that matches, then \<open>break\<close>.\<close>

fun first_match :: "string \<Rightarrow> regex list \<Rightarrow> rmatch_result option" where
  "first_match s [] = None"
| "first_match s (r # rs) =
     (case str_match s True r of None \<Rightarrow> first_match s rs | Some m \<Rightarrow> Some m)"

definition extract_dimensions :: "string \<Rightarrow> number option \<times> number option" where
  "extract_dimensions userMessage =
     (case first_match userMessage dimensionPatterns of
        None \<Rightarrow> (None, None)
      | Some m \<Rightarrow> (parseFloat (replace_first_comma (m_group m 1)),
                   parseFloat (replace_first_comma (m_group m 2))))"

text \<open>\<open>/(\d+(?:[.,]\d+)?)\s*(?:m|meters?|metres?)?\s*(?:high|height|off\s*(?:the\s*)?ground)?/i\<close>\<close>

definition heightPattern :: regex where
  "heightPattern =
     rx_cat [Group 1 rx_number, rx_star rx_s,
             rx_opt (rx_alt [Chars ''m'', rx_cat [Chars ''meter'', rx_opt (Chars ''s'')],
                             rx_cat [Chars ''metre'', rx_opt (Chars ''s'')]]),
             rx_star rx_s,
             rx_opt (rx_alt [Chars ''high'', Chars ''height'',
                             rx_cat [Chars ''off'', rx_star rx_s,
                                     rx_opt (rx_cat [Chars ''the'', rx_star rx_s]),
                                     Chars ''ground'']])]"

text \<open>The deck-height block: the height and the flag \<open>isHeight\<close>.\<close>

definition extract_deckHeight :: "string \<Rightarrow> string \<Rightarrow> number option \<times> bool" where
  "extract_deckHeight userMessage msg =
     (case str_match userMessage True heightPattern of
        Some heightMatch \<Rightarrow>
          (case parseFloat (replace_first_comma (m_group heightMatch 1)) of
             None \<Rightarrow> (None, False)
           | Some val \<Rightarrow>
               (let hasKeywords = any_includes msg [''high'', ''off'', ''ground'']
                in if hasKeywords \<or> (val < 3 \<and> val > 0)
                   then (if val < 10 then (Some val, True) else (None, False))
                   else (None, False)))
      | None \<Rightarrow>
          if any_includes msg [''ground level'', ''flush'', ''low'']
          then (Some (1 / 10), True) else (None, False))"

text \<open>
  \<open>/(\d+(?:[.,]\d+)?)\s*(?:square\s*)?(?:m|meter|metre|m2|m[0xB2]|sqm)\s*(?!high|deep|tall|off|thick)/i\<close>
  and \<open>/(\d+(?:[.,]\d+)?)\s*(?:meter|metre|m)(?:s)?\s*(?:of\s*)?(?:fence|fencing)?/i\<close>,
  where [0xB2] is the superscript two.
\<close>

definition areaPattern :: regex where
  "areaPattern =
     rx_cat [Group 1 rx_number, rx_star rx_s, rx_opt (rx_cat [Chars ''square'', rx_star rx_s]),
             rx_words [''m'', ''meter'', ''metre'', ''m2'', [CHR ''m'', CHR 0xB2], ''sqm''],
             rx_star rx_s,
             NegLook (rx_words [''high'', ''deep'', ''tall'', ''off'', ''thick''])]"

definition linearPattern :: regex where
  "linearPattern =
     rx_cat [Group 1 rx_number, rx_star rx_s, rx_words [''meter'', ''metre'', ''m''],
             rx_opt (Chars ''s''), rx_star rx_s, rx_opt (rx_cat [Chars ''of'', rx_star rx_s]),
             rx_opt (rx_words [''fence'', ''fencing''])]"

text \<open>The area block, entered when \<open>isHeight\<close> is false: the single area number, guarded by
  \<open>!extracted.length_m\<close>, then the linear metres of a fence, which overwrite it.\<close>

definition extract_area :: "string \<Rightarrow> string \<Rightarrow> number option \<Rightarrow> bool \<Rightarrow> number option" where
  "extract_area userMessage msg len isHeight =
     (if \<not> isHeight
      then (let areaMatch = str_match userMessage True areaPattern;
                isActuallyHeight = any_includes msg [''high'', ''deep'', ''off the ground''];
                area1 = (case areaMatch of
                           None \<Rightarrow> None
                         | Some m \<Rightarrow>
                             if \<not> truthy_num len \<and> \<not> isActuallyHeight
                             then parseFloat (replace_first_comma (m_group m 1)) else None)
            in if any_includes msg [''fence'', ''fencing'']
               then (case str_match userMessage True linearPattern of
                       None \<Rightarrow> area1
                     | Some m \<Rightarrow> parseFloat (replace_first_comma (m_group m 1)))
               else area1)
      else None)"

subsection \<open>Legacy variant of the geometry block\<close>

text \<open>
  The repository keeps an older copy of the extractor. Its geometry block has no decimal
  comma and no deck-height guard: the patterns are
  \<open>/(\d+(?:\.\d+)?)\s*(?:m|meter|metre)?\s*(?:x|by|[0xD7])\s*(\d+(?:\.\d+)?)\s*(?:m|meter|metre)?/i\<close>,
  \<open>/(\d+(?:\.\d+)?)\s*m\s*(?:x|by|[0xD7])\s*(\d+(?:\.\d+)?)/i\<close>,
  \<open>/(\d+(?:\.\d+)?)\s*(?:square\s*)?(?:m|meter|metre|m2|m[0xB2]|sqm)/i\<close> and
  \<open>/(\d+(?:\.\d+)?)\s*(?:meter|metre|m)(?:s)?\s*(?:of\s*)?(?:fence|fencing)?/i\<close>.
  \<open>extract_geometry_legacy\<close> is the length, the width and the area of its result.
\<close>

definition rx_number_legacy :: regex where
  "rx_number_legacy = rx_cat [rx_plus rx_d, rx_opt (rx_cat [Chars ''.'', rx_plus rx_d])]"

definition dimensionPatterns_legacy :: "regex list" where
  "dimensionPatterns_legacy =
     [rx_cat [Group 1 rx_number_legacy, rx_star rx_s,
              rx_opt (rx_words [''m'', ''meter'', ''metre'']),
              rx_star rx_s, rx_words [''x'', ''by'', [CHR 0xD7]], rx_star rx_s,
              Group 2 rx_number_legacy, rx_star rx_s,
              rx_opt (rx_words [''m'', ''meter'', ''metre''])],
      rx_cat [Group 1 rx_number_legacy, rx_star rx_s, Chars ''m'', rx_star rx_s,
              rx_words [''x'', ''by'', [CHR 0xD7]], rx_star rx_s, Group 2 rx_number_legacy]]"

definition extract_dimensions_legacy :: "string \<Rightarrow> number option \<times> number option" where
  "extract_dimensions_legacy userMessage =
     (case first_match userMessage dimensionPatterns_legacy of
        None \<Rightarrow> (None, None)
      | Some m \<Rightarrow> (parseFloat (m_group m 1), parseFloat (m_group m 2)))"

definition areaPattern_legacy :: regex where
  "areaPattern_legacy =
     rx_cat [Group 1 rx_number_legacy, rx_star rx_s,
             rx_opt (rx_cat [Chars ''square'', rx_star rx_s]),
             rx_words [''m'', ''meter'', ''metre'', ''m2'', [CHR ''m'', CHR 0xB2], ''sqm'']]"

definition linearPattern_legacy :: regex where
  "linearPattern_legacy =
     rx_cat [Group 1 rx_number_legacy, rx_star rx_s, rx_words [''meter'', ''metre'', ''m''],
             rx_opt (Chars ''s''), rx_star rx_s, rx_opt (rx_cat [Chars ''of'', rx_star rx_s]),
             rx_opt (rx_words [''fence'', ''fencing''])]"

definition extract_area_legacy :: "string \<Rightarrow> string \<Rightarrow> number option \<Rightarrow> number option" where
  "extract_area_legacy userMessage msg len =
     (let area1 = (case str_match userMessage True areaPattern_legacy of
                     None \<Rightarrow> None
                   | Some m \<Rightarrow> if \<not> truthy_num len then parseFloat (m_group m 1) else None)
      in if any_includes msg [''fence'', ''fencing'']
         then (case str_match userMessage True linearPattern_legacy of
                 None \<Rightarrow> area1
               | Some m \<Rightarrow> parseFloat (m_group m 1))
         else area1)"

definition extract_geometry_legacy ::
  "string \<Rightarrow> number option \<times> number option \<times> number option" where
  "extract_geometry_legacy userMessage =
     (let msg = toLowerCase userMessage;
          dims = extract_dimensions_legacy userMessage
      in (fst dims, snd dims, extract_area_legacy userMessage msg (fst dims)))"

subsection \<open>Material tier\<close>

definition standardKeywords :: "string list" where
  "standardKeywords =
     [''cheap'', ''budget'', ''basic'', ''softwood'', ''soft wood'', ''softwood panel'',
      ''concrete'', ''concrete paver'', ''standard'', ''container plant'', ''basic cut'',
      ''cut and collect'', ''basic pergola'', ''basic frame'', ''basic planting'',
      ''basic landscaping'', ''normal'', ''regular'', ''simple'', ''ordinary'', ''just a'',
      ''budjet'', ''cheep'', ''baic'', ''standrd'', ''softwod'', ''conrete'', ''affordable'',
      ''economical'', ''cost effective'', ''on a budget'', ''save money'', ''inexpensive'',
      ''value'', ''reasonable price'', ''not expensive'', ''lower cost'', ''entry level'',
      ''starter'', ''essential'']"

definition luxuryKeywords :: "string list" where
  "luxuryKeywords =
     [''luxury'', ''high-end'', ''ipe'', ''hardwood'', ''hard wood'', ''ipe hardwood'',
      ''porcelain'', ''porcelain paving'', ''cedar'', ''premium cedar'', ''full grounds'',
      ''full maintenance'', ''architectural'', ''architectural planting'', ''custom hardwood'',
      ''full architectural design'', ''best'', ''top'', ''luxary'', ''luxry'', ''porcelin'',
      ''ceadar'', ''high quality'', ''top quality'', ''top tier'', ''finest'', ''high spec'',
      ''upscale'', ''top of the range'', ''top of the line'', ''executive'', ''deluxe'',
      ''exclusive'', ''bespoke'', ''best quality'', ''nothing but the best'',
      ''spare no expense'']"

definition premiumKeywords :: "string list" where
  "premiumKeywords =
     [''composite'', ''sandstone'', ''mid'', ''composite decking'', ''indian sandstone'',
      ''treated slat'', ''slat'', ''precision'', ''precision cut'', ''edge'', ''edging'',
      ''specimen'', ''specimen plant'', ''engineered'', ''engineered timber'',
      ''premium planting'', ''premium specimen'', ''decent'', ''good quality'', ''middle'',
      ''premium'', ''composit'', ''sandston'', ''decnt'', ''speciman'', ''enginered'',
      ''premum'', ''preimum'', ''mid-range'', ''mid range'', ''middle of the road'',
      ''good but not crazy'', ''reasonable quality'', ''solid quality'', ''well made'',
      ''durable'']"

definition extract_materialTier :: "string \<Rightarrow> MaterialTier option" where
  "extract_materialTier msg =
     (if any_includes msg standardKeywords then Some Standard
      else if any_includes msg luxuryKeywords then Some Luxury
      else if any_includes msg premiumKeywords then Some Premium
      else None)"

subsection \<open>Site conditions\<close>

definition extract_hasExcavatorAccess :: "string \<Rightarrow> bool option" where
  "extract_hasExcavatorAccess msg =
     (if any_includes msg
           [''narrow'', ''small gate'', ''70cm'', ''80cm'', ''tight'', ''won't fit'', ''can't'']
         \<or> isNegative msg
         \<or> any_includes msg
           [''too narrow'', ''not wide enough'', ''restricted'', ''limited access'',
            ''difficult access'', ''no access'', ''tight squeeze'', ''won't get through'',
            ''too tight'', ''side passage'', ''alley'', ''not sure'']
      then Some False
      else if any_includes msg [''wide'', ''good access'']
         \<or> isAffirmative msg
         \<or> any_includes msg
           [''fits'', ''it fits'', ''there is'', ''it can'', ''plenty of room'',
            ''easy access'', ''wide enough'', ''no problem'', ''can get through'',
            ''accessible'', ''open access'', ''should fit'']
      then Some True
      else None)"

definition extract_hasDrivewayForSkip :: "string \<Rightarrow> bool option" where
  "extract_hasDrivewayForSkip msg =
     (if any_includes msg [''no driveway'', ''street'', ''on the road'', ''no drive'']
         \<or> isNegative msg
         \<or> any_includes msg
           [''on street'', ''road parking'', ''street parking'', ''permit'', ''public road'',
            ''haven't got'', ''don't have'']
      then Some False
      else if any_includes msg [''driveway'', ''parking'']
         \<or> isAffirmative msg
         \<or> any_includes msg
           [''have a drive'', ''got a drive'', ''front drive'', ''off street'', ''private'',
            ''own parking'', ''car park'']
      then Some True
      else None)"

definition extract_slopeLevel :: "string \<Rightarrow> SlopeLevel option" where
  "extract_slopeLevel msg =
     (if any_includes msg
           [''flat'', ''fla'', ''level'', ''even'', ''no slope'', ''completely flat'',
            ''totally level'', ''nice and flat'', ''perfectly level'', ''no gradient'',
            ''horizontal'']
      then Some Flat
      else if any_includes msg
           [''steep'', ''very slope'', ''hill'', ''quite slope'', ''steepe'', ''steap'',
            ''really steep'', ''very steep'', ''quite steep'', ''hilly'', ''sharp slope'',
            ''incline'', ''on a hill'', ''sloped garden'']
      then Some Steep
      else if any_includes msg
           [''slope'', ''moderate'', ''bit of'', ''slight'', ''gentle slope'', ''bit sloped'',
            ''some slope'', ''sloping'', ''gradual'', ''not too steep'', ''bit of a slope'']
      then Some Moderate
      else None)"

definition extract_existingDemolition :: "string \<Rightarrow> bool option" where
  "extract_existingDemolition msg =
     (if any_includes msg [''remove'', ''tear out'', ''demolish'', ''existing'']
         \<or> isAffirmative msg
         \<or> any_includes msg
           [''a little'', ''some '', ''need to remove'', ''demolish needed'', ''bit of'',
            ''old'', ''remov'', ''demolis'', ''exsting'', ''take out'', ''rip out'',
            ''clear out'', ''get rid of'', ''strip out'', ''take up'', ''pull up'',
            ''needs removing'', ''to be removed'', ''old patio'', ''old deck'',
            ''something there'']
      then Some True
      else if any_includes msg [''new'', ''fresh'', ''no removal'', ''nothing'', ''clean'']
         \<or> isNegative msg
         \<or> any_includes msg
           [''fresh start'', ''blank slate'', ''bare ground'', ''empty'', ''clear'',
            ''nothing there'', ''clean site'', ''no existing'']
      then Some False
      else None)"

subsection \<open>Numeric extras\<close>

text \<open>\<open>/(\d+)\s*week/i\<close>, \<open>/(\d+)\s*month/i\<close> and \<open>/(\d+)\s*gate/i\<close>.\<close>

definition weeksPattern :: regex where
  "weeksPattern = rx_cat [Group 1 (rx_plus rx_d), rx_star rx_s, Chars ''week'']"

definition monthsPattern :: regex where
  "monthsPattern = rx_cat [Group 1 (rx_plus rx_d), rx_star rx_s, Chars ''month'']"

definition gatePattern :: regex where
  "gatePattern = rx_cat [Group 1 (rx_plus rx_d), rx_star rx_s, Chars ''gate'']"

definition extract_overgrown :: "string \<Rightarrow> string \<Rightarrow> bool option" where
  "extract_overgrown userMessage msg =
     (if str_match userMessage True monthsPattern \<noteq> None then Some True
      else (case str_match userMessage True weeksPattern of
              Some weeksMatch \<Rightarrow>
                (case parseInt (m_group weeksMatch 1) of
                   None \<Rightarrow> Some False
                 | Some weeks \<Rightarrow> Some (weeks > 2))
            | None \<Rightarrow>
                if any_includes msg
                     [''overgrown'', ''long grass'', ''not cut'', ''while'', ''ages'',
                      ''long time'']
                then Some True
                else if any_includes msg [''recent'', ''last week'', ''yesterday'', ''few days'']
                then Some False
                else None))"

definition extract_gateCount :: "string \<Rightarrow> string \<Rightarrow> number option" where
  "extract_gateCount userMessage msg =
     (case str_match userMessage True gatePattern of
        Some gateMatch \<Rightarrow> parseInt (m_group gateMatch 1)
      | None \<Rightarrow>
          if any_includes msg [''one gate'', ''a gate''] then Some 1
          else if str_includes msg ''two gate'' then Some 2
          else if str_includes msg ''no gate'' then Some 0
          else None)"

subsection \<open>Budget alignment\<close>

definition extract_budgetAligns :: "string \<Rightarrow> bool option" where
  "extract_budgetAligns msg =
     (if any_includes msg
           [''yes'', ''sure'', ''ok'', ''okay'', ''sounds good'', ''that works'', ''aligns'',
            ''within budget'', ''good for me'', ''perfect'', ''great'', ''fine'', ''yep'',
            ''yeah'', ''yeh'', ''absolutely'', ''definitely'', ''works for me'',
            ''good to go'', ''let's do it'', ''let's go'', ''approved'', ''agree'', ''accept'']
      then Some True
      else if any_includes msg
           [''no '', ''nope'', ''nah'', ''too much'', ''expensive'', ''over budget'',
            ''can't afford'', ''too high'', ''out of budget'', ''more than'', ''exceeds'',
            ''not sure'', ''need to think'', ''discuss'', ''reduce'', ''lower'']
      then Some False
      else None)"

subsection \<open>Contact fields\<close>

definition extract_fullName :: "string \<Rightarrow> string \<Rightarrow> string option" where
  "extract_fullName userMessage msg =
     (let trimmedMsg = trim userMessage;
          isExplicitName = any_includes msg [''name is'', ''call me'', ''i am''];
          wordCount = split_space_length trimmedMsg;
          digitCount = length (filter isDigit userMessage);
          looksLikePhone = (digitCount > 5)
      in if (isExplicitName \<or> (wordCount \<le> 4 \<and> wordCount \<ge> 1))
            \<and> length trimmedMsg > 2 \<and> length trimmedMsg < 50
            \<and> \<not> looksLikePhone
            \<and> \<not> str_includes msg ''@'' \<and> \<not> str_includes msg ''http''
            \<and> \<not> str_includes msg ''what'' \<and> \<not> str_includes msg ''how''
            \<and> \<not> str_includes msg ''why'' \<and> \<not> str_includes msg ''when''
         then Some trimmedMsg else None)"

text \<open>
  The UK phone pattern (no \<open>i\<close> flag), in three parts: the prefix
  \<open>(?:(?:\(?(?:0(?:0|11)\)?[\s-]?\(?|\+)44\)?[\s-]?(?:\(?0\)?[\s-]?)?)|(?:\(?0))\<close>,
  the number
  \<open>(?:(?:\d{5}\)?[\s-]?\d{4,5})|(?:\d{4}\)?[\s-]?(?:\d{5}|\d{3}[\s-]?\d{3}))|(?:\d{3}\)?[\s-]?\d{3}[\s-]?\d{3,4})|(?:\d{2}\)?[\s-]?\d{4}[\s-]?\d{4}))\<close>
  and the extension \<open>(?:[\s-]?(?:x|ext\.?|\#)\d{3,4})?\<close>.
\<close>

definition phonePrefix :: regex where
  "phonePrefix =
     rx_alt [rx_cat [rx_opt (Chars ''(''),
                     rx_alt [rx_cat [Chars ''0'', rx_alt [Chars ''0'', Chars ''11''],
                                     rx_opt (Chars '')''), rx_sep, rx_opt (Chars ''('')],
                             Chars ''+''],
                     Chars ''44'', rx_opt (Chars '')''), rx_sep,
                     rx_opt (rx_cat [rx_opt (Chars ''(''), Chars ''0'', rx_opt (Chars '')''), rx_sep])],
             rx_cat [rx_opt (Chars ''(''), Chars ''0'']]"

definition phoneNumber :: regex where
  "phoneNumber =
     rx_alt [rx_cat [Rep 5 (Some 5) rx_d, rx_opt (Chars '')''), rx_sep, Rep 4 (Some 5) rx_d],
             rx_cat [Rep 4 (Some 4) rx_d, rx_opt (Chars '')''), rx_sep,
                     rx_alt [Rep 5 (Some 5) rx_d,
                             rx_cat [Rep 3 (Some 3) rx_d, rx_sep, Rep 3 (Some 3) rx_d]]],
             rx_cat [Rep 3 (Some 3) rx_d, rx_opt (Chars '')''), rx_sep, Rep 3 (Some 3) rx_d,
                     rx_sep, Rep 3 (Some 4) rx_d],
             rx_cat [Rep 2 (Some 2) rx_d, rx_opt (Chars '')''), rx_sep, Rep 4 (Some 4) rx_d,
                     rx_sep, Rep 4 (Some 4) rx_d]]"

definition phoneExtension :: regex where
  "phoneExtension =
     rx_opt (rx_cat [rx_sep,
                     rx_alt [Chars ''x'', rx_cat [Chars ''ext'', rx_opt (Chars ''.'')], Chars ''#''],
                     Rep 3 (Some 4) rx_d])"

definition phonePattern :: regex where
  "phonePattern = rx_cat [phonePrefix, phoneNumber, phoneExtension]"

definition extract_contactPhone :: "string \<Rightarrow> string option" where
  "extract_contactPhone userMessage =
     (case str_match userMessage False phonePattern of
        None \<Rightarrow> None
      | Some phoneMatch \<Rightarrow>
          (let digits = digits_only (m_text phoneMatch)
           in if length digits \<ge> 9 then Some (m_text phoneMatch) else None))"

text \<open>\<open>/([a-zA-Z0-9._+-]+@[a-zA-Z0-9.-]+\.[a-zA-Z]{2,})/\<close>\<close>

definition emailPattern :: regex where
  "emailPattern =
     Group 1
       (rx_cat [rx_plus (OneOf [LowerAZ, UpperAZ,
                                Dig, C (CHR ''.''), C (CHR ''_''),
                                C (CHR ''+''), C (CHR ''-'')]),
                Chars ''@'',
                rx_plus (OneOf [LowerAZ, UpperAZ,
                                Dig, C (CHR ''.''), C (CHR ''-'')]),
                Chars ''.'',
                Rep 2 None (OneOf [LowerAZ, UpperAZ])])"

definition extract_contactEmail :: "string \<Rightarrow> string option" where
  "extract_contactEmail userMessage =
     (case str_match userMessage False emailPattern of
        None \<Rightarrow> None
      | Some emailMatch \<Rightarrow> Some (toLowerCase (m_group emailMatch 1)))"

text \<open>
  \<open>/\b(?!(?:budget|about|around|price|cost|money|cheap|steep|slope|level|width|length|depth|high|tall|area|size)\b)([A-Za-z0-9\s]{3,10})\b/i\<close>
\<close>

definition postcodePattern :: regex where
  "postcodePattern =
     rx_cat [WordB,
             NegLook (rx_cat [rx_words [''budget'', ''about'', ''around'', ''price'', ''cost'',
                                        ''money'', ''cheap'', ''steep'', ''slope'', ''level'',
                                        ''width'', ''length'', ''depth'', ''high'', ''tall'',
                                        ''area'', ''size''],
                              WordB]),
             Group 1 (Rep 3 (Some 10)
                        (OneOf [UpperAZ, LowerAZ,
                                Dig, Spc])),
             WordB]"

definition extract_postalCode :: "string \<Rightarrow> string option" where
  "extract_postalCode userMessage =
     (case str_match userMessage True postcodePattern of
        None \<Rightarrow> None
      | Some postcodeMatch \<Rightarrow>
          (let rawPostcode = toUpperCase (trim (m_group postcodeMatch 1))
           in if length rawPostcode \<ge> 3 then Some rawPostcode else None))"

subsection \<open>Budget\<close>

text \<open>
  \<open>/(?:budget|is|about|around)?\s*[[0xA3]$]?\s*(\d+(?:[.,]\d+)?)\s*(?:k|thousand)?/i\<close>
  (with the pound sign [0xA3]),
  \<open>/^(m|sq|ft|cm|mm|x|by|meter|metre|deck|patio|paver|slab)/\<close> and \<open>/^\s*0\d/\<close>.
\<close>

definition budgetPattern :: regex where
  "budgetPattern =
     rx_cat [rx_opt (rx_words [''budget'', ''is'', ''about'', ''around'']), rx_star rx_s,
             rx_opt (OneOf [C (CHR 0xA3), C (CHR ''$'')]), rx_star rx_s,
             Group 1 rx_number, rx_star rx_s, rx_opt (rx_words [''k'', ''thousand''])]"

definition unitPattern :: regex where
  "unitPattern =
     rx_cat [Bol, Group 1 (rx_words [''m'', ''sq'', ''ft'', ''cm'', ''mm'', ''x'', ''by'', ''meter'',
                                      ''metre'', ''deck'', ''patio'', ''paver'', ''slab''])]"

definition startsWithZeroPattern :: regex where
  "startsWithZeroPattern = rx_cat [Bol, rx_star rx_s, Chars ''0'', rx_d]"

text \<open>
  The budget block gives \<open>userBudget\<close> and \<open>explicitBudget\<close>. It is the last block of the
  function, so the early \<open>return extracted\<close> after a measurement unit leaves both unset and
  changes nothing else.
\<close>

definition extract_budget :: "string \<Rightarrow> string \<Rightarrow> string option \<Rightarrow> number option \<times> bool option" where
  "extract_budget userMessage msg phone =
     (let hasCurrency = any_includes msg [[CHR 0xA3], ''$'', ''euro'', ''budget''];
          startsWithZero = rx_test False startsWithZeroPattern msg;
          isPhone = truthy_str phone
      in if \<not> isPhone \<or> hasCurrency
         then (case str_match userMessage True budgetPattern of
                 None \<Rightarrow> (None, None)
               | Some budgetMatch \<Rightarrow>
                   if startsWithZero \<and> \<not> hasCurrency then (None, None)
                   else (let parsed = parseFloat (remove_commas (replace_first_comma
                                                    (m_group budgetMatch 1)));
                             amount = (if any_includes msg [''k'', ''thousand'']
                                       then map_option (\<lambda>a. a * 1000) parsed else parsed);
                             postMatch = toLowerCase (trim (drop (m_index budgetMatch
                                                                   + length (m_text budgetMatch))
                                                                  userMessage))
                         in if rx_test False unitPattern postMatch then (None, None)
                            else (case amount of
                                    None \<Rightarrow> (None, None)
                                  | Some a \<Rightarrow>
                                      if a > 100 \<and> a < 2000000
                                      then (Some a, Some hasCurrency) else (None, None))))
         else (None, None))"

subsection \<open>The extractor\<close>

definition extractLocalInformation :: "string \<Rightarrow> ExtractedInfo" where
  "extractLocalInformation userMessage =
     (let msg = toLowerCase userMessage;
          dims = extract_dimensions userMessage;
          height = extract_deckHeight userMessage msg;
          phone = extract_contactPhone userMessage;
          budget = extract_budget userMessage msg phone
      in \<lparr>x_service = extract_service msg,
          x_area_m2 = extract_area userMessage msg (fst dims) (snd height),
          x_length_m = fst dims,
          x_width_m = snd dims,
          x_materialTier = extract_materialTier msg,
          x_hasExcavatorAccess = extract_hasExcavatorAccess msg,
          x_hasDrivewayForSkip = extract_hasDrivewayForSkip msg,
          x_slopeLevel = extract_slopeLevel msg,
          x_subBaseType = None,
          x_existingDemolition = extract_existingDemolition msg,
          x_deckHeight_m = fst height,
          x_overgrown = extract_overgrown userMessage msg,
          x_gateCount = extract_gateCount userMessage msg,
          x_wantsDrainage = None,
          x_wantsLedLighting = None,
          x_budgetAligns = extract_budgetAligns msg,
          x_fullName = extract_fullName userMessage msg,
          x_userBudget = fst budget,
          x_postalCode = extract_postalCode userMessage,
          x_contactEmail = extract_contactEmail userMessage,
          x_contactPhone = phone,
          x_projectStartTiming = None,
          x_groundSoilType = None,
          x_explicitBudget = snd budget\<rparr>)"

section \<open>Quick replies\<close>

text \<open>
  A \<open>QuickReply\<close> has a display \<open>text\<close> and a \<open>value\<close>, the literal sent as the user's
  message when the reply is chosen. The functions below return the values, in the order of
  the source; the display texts are not modelled. The repository has two copies of the
  module: \<open>getQuickReplies\<close> and \<open>getFallbackQuickReplies\<close> are the copy with the
  "I'll write it out" option, \<open>getQuickReplies_v1\<close> and \<open>getFallbackQuickReplies_v1\<close> the
  copy of \<open>quickReplies.ts\<close> without it.
\<close>

definition WRITE_IT_OUT :: string where
  "WRITE_IT_OUT = ''__write_it_out__''"

definition withWriteItOut :: "string list \<Rightarrow> string list" where
  "withWriteItOut replies = replies @ [WRITE_IT_OUT]"

fun tierReplies :: "ServiceType \<Rightarrow> string list" where
  "tierReplies Hardscaping = [''basic concrete pavers'', ''indian sandstone'', ''porcelain paving'']"
| "tierReplies Decking = [''treated softwood'', ''composite decking'', ''ipe hardwood'']"
| "tierReplies Mowing =
     [''basic cut and collect'', ''precision cut with edging'', ''full grounds maintenance'']"
| "tierReplies Planting = [''container plants'', ''specimen plants'', ''architectural planting'']"
| "tierReplies Fencing = [''softwood panels'', ''treated slats'', ''premium cedar'']"
| "tierReplies Framing = [''basic pergola frame'', ''engineered timber'', ''custom hardwood'']"
| "tierReplies Softscaping =
     [''basic landscaping'', ''premium planting'', ''full architectural design'']"

definition getQuickReplies :: "ConversationState \<Rightarrow> string list" where
  "getQuickReplies state =
     (case service state of
        None \<Rightarrow>
          withWriteItOut [''patio'', ''decking'', ''lawn mowing'', ''landscaping'', ''planting'',
                          ''fencing'', ''pergola'']
      | Some sv \<Rightarrow>
          if \<not> truthy_num (area_m2 state) \<and> \<not> truthy_num (length_m state)
             \<and> \<not> truthy_num (width_m state)
          then withWriteItOut [''15 square meters'', ''35 square meters'', ''75 square meters'',
                               ''120 square meters'']
          else if materialTier state = None then withWriteItOut (tierReplies sv)
          else if hasExcavatorAccess state = None \<and> sv \<noteq> Mowing
          then withWriteItOut [''yes it fits'', ''narrow access'']
          else if hasDrivewayForSkip state = None \<and> sv \<noteq> Mowing
          then withWriteItOut [''yes driveway'', ''on the street'']
          else if slopeLevel state = None \<and> sv \<noteq> Mowing
          then withWriteItOut [''flat'', ''moderate slope'', ''steep slope'']
          else if existingDemolition state = None \<and> (sv = Hardscaping \<or> sv = Decking)
          then withWriteItOut [''yes removal needed'', ''no nothing to remove'']
          else if sv = Fencing \<and> gateCount state = None
          then withWriteItOut [''no gates'', ''one gate'', ''two gates'']
          else if sv = Mowing \<and> overgrown state = None
          then withWriteItOut [''last week'', ''3 weeks ago'']
          else if userBudget state = None \<and> truthy_str (contactEmail state)
          then withWriteItOut [CHR 0xA3 # ''4000'', CHR 0xA3 # ''7500'', CHR 0xA3 # ''15000'',
                               CHR 0xA3 # ''25000'', CHR 0xA3 # ''0'']
          else if userBudget state \<noteq> None \<and> \<not> truthy_str (projectStartTiming state)
          then withWriteItOut [''As soon as possible'', ''Within the next 3 months'',
                               ''Just planning ahead'', ''Not sure yet'']
          else [])"

definition getFallbackQuickReplies :: "string \<Rightarrow> ConversationState \<Rightarrow> string list" where
  "getFallbackQuickReplies field state =
     (if field = ''service''
      then [''patio'', ''decking'', ''lawn mowing'', ''landscaping'', ''planting'', ''fencing'',
            ''pergola'']
      else if field = ''dimensions''
      then [''15 square meters'', ''35 square meters'', ''75 square meters'',
            ''120 square meters'', ''let me type it'']
      else if field = ''materialTier''
      then (if service state = Some Hardscaping
            then [''basic concrete pavers'', ''indian sandstone'', ''porcelain paving'']
            else if service state = Some Decking
            then [''treated softwood'', ''composite decking'', ''ipe hardwood'']
            else [''essential option'', ''premium quality'', ''luxury ''])
      else if field = ''excavatorAccess'' then [''yes wide access'', ''narrow gate'']
      else if field = ''driveway'' then [''yes driveway'', ''on street'']
      else if field = ''slope'' then [''flat ground'', ''moderate slope'', ''steep slope'']
      else if field = ''demolition'' then [''yes need to remove existing'', ''no nothing there'']
      else if field = ''deckHeight''
      then [''0.3 meters high'', ''0.8 meters high'', ''1.2 meters high'', ''2 meters high'']
      else if field = ''overgrown'' then [''last week'', ''3 weeks ago'']
      else if field = ''gateCount'' then [''no gates'', ''one gate'', ''two gates'', ''three gates'']
      else if field = ''budgetAlignment''
      then [''yes that works'', ''too expensive need to discuss'']
      else if field = ''fullName'' then [''John Smith'', ''Guest User'']
      else if field = ''contactPhone'' then [''07700900000'', ''0000000000'']
      else if field = ''contactEmail'' then [''user@example.com'', ''guest@example.com'']
      else if field = ''userBudget''
      then [CHR 0xA3 # ''4000'', CHR 0xA3 # ''7500'', CHR 0xA3 # ''15000'', CHR 0xA3 # ''25000'',
            CHR 0xA3 # ''0'', WRITE_IT_OUT]
      else if field = ''projectStartTiming''
      then [''As soon as possible'', ''Within the next 3 months'', ''Just planning ahead'',
            ''Not sure yet'']
      else [])"

definition getQuickReplies_v1 :: "ConversationState \<Rightarrow> string list" where
  "getQuickReplies_v1 state =
     (case service state of
        None \<Rightarrow> []
      | Some sv \<Rightarrow>
          if materialTier state = None then tierReplies sv
          else if hasExcavatorAccess state = None \<and> sv \<noteq> Mowing
          then [''yes it fits'', ''narrow access'']
          else if hasDrivewayForSkip state = None \<and> sv \<noteq> Mowing
          then [''yes driveway'', ''on the street'']
          else if slopeLevel state = None \<and> sv \<noteq> Mowing
          then [''flat'', ''moderate slope'', ''steep slope'']
          else if existingDemolition state = None \<and> (sv = Hardscaping \<or> sv = Decking)
          then [''yes removal needed'', ''no nothing to remove'']
          else if sv = Fencing \<and> gateCount state = None
          then [''no gates'', ''one gate'', ''two gates'']
          else if sv = Mowing \<and> overgrown state = None
          then [''last week'', ''3 weeks ago'']
          else [])"

definition getFallbackQuickReplies_v1 :: "string \<Rightarrow> ConversationState \<Rightarrow> string list" where
  "getFallbackQuickReplies_v1 field state =
     (if field = ''service''
      then [''patio'', ''decking'', ''lawn mowing'', ''landscaping'', ''planting'', ''fencing'',
            ''pergola'']
      else if field = ''dimensions''
      then [''15 square meters'', ''35 square meters'', ''75 square meters'',
            ''120 square meters'', ''let me type it'']
      else if field = ''materialTier''
      then (if service state = Some Hardscaping
            then [''basic concrete pavers'', ''indian sandstone'', ''porcelain paving'']
            else if service state = Some Decking
            then [''treated softwood'', ''composite decking'', ''ipe hardwood'']
            else [''budget option'', ''mid range'', ''premium quality''])
      else if field = ''excavatorAccess'' then [''yes wide access'', ''narrow gate'']
      else if field = ''driveway'' then [''yes driveway'', ''on street'']
      else if field = ''slope'' then [''flat ground'', ''moderate slope'', ''steep slope'']
      else if field = ''demolition'' then [''yes need to remove existing'', ''no nothing there'']
      else if field = ''deckHeight''
      then [''0.3 meters high'', ''0.8 meters high'', ''1.2 meters high'', ''2 meters high'']
      else if field = ''overgrown'' then [''last week'', ''3 weeks ago'']
      else if field = ''gateCount'' then [''no gates'', ''one gate'', ''two gates'', ''three gates'']
      else if field = ''budgetAlignment''
      then [''yes that works'', ''too expensive need to discuss'']
      else if field = ''fullName'' then [''John Smith'', ''Guest User'']
      else if field = ''contactPhone'' then [''07700900000'', ''0000000000'']
      else if field = ''contactEmail'' then [''user@example.com'', ''guest@example.com'']
      else if field = ''userBudget''
      then [CHR 0xA3 # ''5000'', CHR 0xA3 # ''10000'', CHR 0xA3 # ''20000'', CHR 0xA3 # ''0'']
      else [])"

section \<open>Notions used in the statements\<close>

text \<open>The subtotal of an estimate is the sum of its line items that are not business
  fees; the wrapper fees are the amounts of its fee line items, in order.\<close>

definition subtotal :: "LineItem list \<Rightarrow> number" where
  "subtotal items = sum_list (map amount (filter (\<lambda>i. kind i \<noteq> Fee) items))"



text \<open>
  The area of a validated input is a number that is not negative. \<open>isBinary64 x\<close>: \<open>x\<close> is
  a finite binary64 value. \<open>validatedArea a\<close>: \<open>a\<close> is such a value, not negative, and at
  most \<open>10^300\<close>, so that every product of the engine is finite (beyond, the code
  computes with \<open>Infinity\<close>).
\<close>

definition isBinary64 :: "number \<Rightarrow> bool" where
  "isBinary64 x = (double x = x \<and> \<bar>x\<bar> < 2 ^ 1024)"

definition validatedArea :: "number \<Rightarrow> bool" where
  "validatedArea a = (isBinary64 a \<and> 0 \<le> a \<and> a \<le> 10 ^ 300)"

text \<open>The project of the specification's pricing example (hardscaping, standard tier,
  10 m by 10 m, no excavator access, driveway, flat, no demolition), the same project in
  premium tier with an area of 10.02 square metres, and a 5 m by 3 m deck to be
  demolished.\<close>

definition examplePremiumPatio :: ProjectInputs where
  "examplePremiumPatio =
     \<lparr>in_service = Hardscaping, in_hasExcavatorAccess = False, in_hasDrivewayForSkip = True,
      in_slopeLevel = Flat, in_subBaseType = Dirt, in_existingDemolition = False,
      in_length_m = double (501 / 50), in_width_m = 1, in_area_m2 = double (501 / 50),
      in_materialTier = Premium, in_deckHeight_m = None\<rparr>"

definition examplePatio :: ProjectInputs where
  "examplePatio =
     \<lparr>in_service = Hardscaping, in_hasExcavatorAccess = False, in_hasDrivewayForSkip = True,
      in_slopeLevel = Flat, in_subBaseType = Dirt, in_existingDemolition = False,
      in_length_m = 10, in_width_m = 10, in_area_m2 = 100, in_materialTier = Standard,
      in_deckHeight_m = None\<rparr>"


text \<open>\<open>sets_one_field s s'\<close>: the state \<open>s'\<close> is \<open>s\<close> with exactly one field changed from
  \<open>null\<close> to a value.\<close>

inductive sets_one_field :: "ConversationState \<Rightarrow> ConversationState \<Rightarrow> bool" where
  "service s = None \<Longrightarrow> sets_one_field s (s\<lparr>service := Some v\<rparr>)"
| "area_m2 s = None \<Longrightarrow> sets_one_field s (s\<lparr>area_m2 := Some n\<rparr>)"
| "length_m s = None \<Longrightarrow> sets_one_field s (s\<lparr>length_m := Some n\<rparr>)"
| "width_m s = None \<Longrightarrow> sets_one_field s (s\<lparr>width_m := Some n\<rparr>)"
| "materialTier s = None \<Longrightarrow> sets_one_field s (s\<lparr>materialTier := Some t\<rparr>)"
| "hasExcavatorAccess s = None \<Longrightarrow> sets_one_field s (s\<lparr>hasExcavatorAccess := Some b\<rparr>)"
| "hasDrivewayForSkip s = None \<Longrightarrow> sets_one_field s (s\<lparr>hasDrivewayForSkip := Some b\<rparr>)"
| "slopeLevel s = None \<Longrightarrow> sets_one_field s (s\<lparr>slopeLevel := Some l\<rparr>)"
| "subBaseType s = None \<Longrightarrow> sets_one_field s (s\<lparr>subBaseType := Some y\<rparr>)"
| "existingDemolition s = None \<Longrightarrow> sets_one_field s (s\<lparr>existingDemolition := Some b\<rparr>)"
| "deckHeight_m s = None \<Longrightarrow> sets_one_field s (s\<lparr>deckHeight_m := Some n\<rparr>)"
| "overgrown s = None \<Longrightarrow> sets_one_field s (s\<lparr>overgrown := Some b\<rparr>)"
| "gateCount s = None \<Longrightarrow> sets_one_field s (s\<lparr>gateCount := Some n\<rparr>)"
| "wantsDrainage s = None \<Longrightarrow> sets_one_field s (s\<lparr>wantsDrainage := Some b\<rparr>)"
| "wantsLedLighting s = None \<Longrightarrow> sets_one_field s (s\<lparr>wantsLedLighting := Some b\<rparr>)"
| "lastQuestionField s = None \<Longrightarrow> sets_one_field s (s\<lparr>lastQuestionField := Some x\<rparr>)"
| "budgetAligns s = None \<Longrightarrow> sets_one_field s (s\<lparr>budgetAligns := Some b\<rparr>)"
| "contactPhone s = None \<Longrightarrow> sets_one_field s (s\<lparr>contactPhone := Some x\<rparr>)"
| "contactEmail s = None \<Longrightarrow> sets_one_field s (s\<lparr>contactEmail := Some x\<rparr>)"
| "fullName s = None \<Longrightarrow> sets_one_field s (s\<lparr>fullName := Some x\<rparr>)"
| "userBudget s = None \<Longrightarrow> sets_one_field s (s\<lparr>userBudget := Some n\<rparr>)"
| "postalCode s = None \<Longrightarrow> sets_one_field s (s\<lparr>postalCode := Some x\<rparr>)"
| "projectStartTiming s = None \<Longrightarrow> sets_one_field s (s\<lparr>projectStartTiming := Some x\<rparr>)"
| "groundSoilType s = None \<Longrightarrow> sets_one_field s (s\<lparr>groundSoilType := Some x\<rparr>)"

text \<open>The line items before the business fees, their total, and the final cost; the
  points of the completeness score for one nullable field and for the dimensions; the
  extraction result with no field set (\<open>{}\<close>).\<close>

definition costItems :: "ProjectInputs \<Rightarrow> LineItem list" where
  "costItems inputs = [materialLineItem inputs, laborLineItem inputs] @ surchargeLineItems inputs"

definition costTotal :: "ProjectInputs \<Rightarrow> number" where
  "costTotal inputs = sum_list (map amount (costItems inputs))"

definition finalCost :: "ProjectInputs \<Rightarrow> number" where
  "finalCost inputs =
     costTotal inputs + Math_round (costTotal inputs * (10 / 100))
     + Math_round (costTotal inputs * (5 / 100)) + Math_round (costTotal inputs * (15 / 100))"

definition pts :: "'a option \<Rightarrow> number \<Rightarrow> number" where
  "pts x w = (if x \<noteq> None then w else 0)"

definition dimsPoints :: "ConversationState \<Rightarrow> number" where
  "dimsPoints s =
     (if truthy_num (area_m2 s) \<or> (truthy_num (length_m s) \<and> truthy_num (width_m s))
      then 30 else 0)"

definition emptyExtraction :: ExtractedInfo where
  "emptyExtraction =
     \<lparr>x_service = None, x_area_m2 = None, x_length_m = None, x_width_m = None,
      x_materialTier = None, x_hasExcavatorAccess = None, x_hasDrivewayForSkip = None,
      x_slopeLevel = None, x_subBaseType = None, x_existingDemolition = None,
      x_deckHeight_m = None, x_overgrown = None, x_gateCount = None, x_wantsDrainage = None,
      x_wantsLedLighting = None, x_budgetAligns = None, x_fullName = None, x_userBudget = None,
      x_postalCode = None, x_contactEmail = None, x_contactPhone = None,
      x_projectStartTiming = None, x_groundSoilType = None, x_explicitBudget = None\<rparr>"

text \<open>
  Notions for the quick replies. \<open>field_is_set f s\<close>: the field named \<open>f\<close> is not null in
  \<open>s\<close>, with the field names of \<open>detectCurrentField\<close> and of \<open>getFallbackQuickReplies\<close>,
  as \<open>isRelevantFieldExtracted\<close> tests them on the new state; the replies for
  \<open>budgetAlignment\<close> are about \<open>budgetAligns\<close>. \<open>asking s f\<close>: the merge takes \<open>f\<close> as the
  currently-asked field, and a deck height is asked in a decking conversation, as
  \<open>detectCurrentField\<close> does. \<open>quickReplyField s\<close> and \<open>quickReplyField_v1 s\<close>: the field
  the replies of \<open>getQuickReplies s\<close> and of \<open>getQuickReplies_v1 s\<close> are for, branch by
  branch.
\<close>

definition field_is_set :: "string \<Rightarrow> ConversationState \<Rightarrow> bool" where
  "field_is_set f s =
     (if f = ''service'' then service s \<noteq> None
      else if f = ''dimensions'' then area_m2 s \<noteq> None \<or> length_m s \<noteq> None
      else if f = ''materialTier'' then materialTier s \<noteq> None
      else if f = ''excavatorAccess'' then hasExcavatorAccess s \<noteq> None
      else if f = ''driveway'' then hasDrivewayForSkip s \<noteq> None
      else if f = ''slope'' then slopeLevel s \<noteq> None
      else if f = ''demolition'' then existingDemolition s \<noteq> None
      else if f = ''deckHeight'' then deckHeight_m s \<noteq> None
      else if f = ''overgrown'' then overgrown s \<noteq> None
      else if f = ''gateCount'' then gateCount s \<noteq> None
      else if f = ''budgetAlignment'' then budgetAligns s \<noteq> None
      else if f = ''fullName'' then fullName s \<noteq> None
      else if f = ''contactPhone'' then contactPhone s \<noteq> None
      else if f = ''contactEmail'' then contactEmail s \<noteq> None
      else if f = ''userBudget'' then userBudget s \<noteq> None
      else if f = ''postalCode'' then postalCode s \<noteq> None
      else if f = ''projectStartTiming'' then projectStartTiming s \<noteq> None
      else False)"

definition asking :: "ConversationState \<Rightarrow> string \<Rightarrow> bool" where
  "asking s f = (currentField_of s = f \<and> (f \<noteq> ''deckHeight'' \<or> service s = Some Decking))"

definition quickReplyField :: "ConversationState \<Rightarrow> string" where
  "quickReplyField state =
     (case service state of
        None \<Rightarrow> ''service''
      | Some sv \<Rightarrow>
          if \<not> truthy_num (area_m2 state) \<and> \<not> truthy_num (length_m state)
             \<and> \<not> truthy_num (width_m state)
          then ''dimensions''
          else if materialTier state = None then ''materialTier''
          else if hasExcavatorAccess state = None \<and> sv \<noteq> Mowing then ''excavatorAccess''
          else if hasDrivewayForSkip state = None \<and> sv \<noteq> Mowing then ''driveway''
          else if slopeLevel state = None \<and> sv \<noteq> Mowing then ''slope''
          else if existingDemolition state = None \<and> (sv = Hardscaping \<or> sv = Decking)
          then ''demolition''
          else if sv = Fencing \<and> gateCount state = None then ''gateCount''
          else if sv = Mowing \<and> overgrown state = None then ''overgrown''
          else if userBudget state = None \<and> truthy_str (contactEmail state) then ''userBudget''
          else if userBudget state \<noteq> None \<and> \<not> truthy_str (projectStartTiming state)
          then ''projectStartTiming''
          else ''unknown'')"

definition quickReplyField_v1 :: "ConversationState \<Rightarrow> string" where
  "quickReplyField_v1 state =
     (case service state of
        None \<Rightarrow> ''unknown''
      | Some sv \<Rightarrow>
          if materialTier state = None then ''materialTier''
          else if hasExcavatorAccess state = None \<and> sv \<noteq> Mowing then ''excavatorAccess''
          else if hasDrivewayForSkip state = None \<and> sv \<noteq> Mowing then ''driveway''
          else if slopeLevel state = None \<and> sv \<noteq> Mowing then ''slope''
          else if existingDemolition state = None \<and> (sv = Hardscaping \<or> sv = Decking)
          then ''demolition''
          else if sv = Fencing \<and> gateCount state = None then ''gateCount''
          else if sv = Mowing \<and> overgrown state = None then ''overgrown''
          else ''unknown'')"

text \<open>
  The quick replies that are not answers for the extractor: the options to type the
  answer ("I'll type exact size", "I'll write it out") and "Not sure yet" for the budget;
  the replies for the start timing, a field the local extractor never fills; and the two
  gate replies the merge does not take.
\<close>

definition escapeReplies :: "string list" where
  "escapeReplies = [''let me type it'', WRITE_IT_OUT, CHR 0xA3 # ''0'']"

definition timingReplies :: "string list" where
  "timingReplies =
     [''As soon as possible'', ''Within the next 3 months'', ''Just planning ahead'',
      ''Not sure yet'']"

definition gateReplies :: "string list" where
  "gateReplies = [''no gates'', ''three gates'']"

definition unparsedReplies :: "string list" where
  "unparsedReplies = escapeReplies @ timingReplies @ gateReplies"

text \<open>A hardscaping conversation at the dimensions question.\<close>

definition askingDimensions :: ConversationState where
  "askingDimensions =
     createInitialState\<lparr>service := Some Hardscaping, lastQuestionField := Some ''dimensions''\<rparr>"

text \<open>Bit patterns of the letters: the low five bits of the codes 1 to 26, and of the
  codes 0 to 30 without 23 (the Latin-1 letters without the signs 0xD7 and 0xF7).\<close>

definition low5_letter :: "bool \<Rightarrow> bool \<Rightarrow> bool \<Rightarrow> bool \<Rightarrow> bool \<Rightarrow> bool" where
  "low5_letter b0 b1 b2 b3 b4 =
     ((b4 \<or> b3 \<or> b2 \<or> b1 \<or> b0) \<and> \<not> (b4 \<and> b3 \<and> (b2 \<or> (b1 \<and> b0))))"

definition low5_latin :: "bool \<Rightarrow> bool \<Rightarrow> bool \<Rightarrow> bool \<Rightarrow> bool \<Rightarrow> bool" where
  "low5_latin b0 b1 b2 b3 b4 =
     (\<not> (b4 \<and> b3 \<and> b2 \<and> b1 \<and> b0) \<and> \<not> (b4 \<and> \<not> b3 \<and> b2 \<and> b1 \<and> b0))"

section \<open>Evaluation\<close>

text \<open>
  The character tests are defined on character codes. For evaluation they are given
  equations on the bits of a character, each proved from the definition by going through
  the 256 characters.
\<close>

lemma isDigit_code [code]:
  "isDigit (Char b0 b1 b2 b3 b4 b5 b6 b7) = (\<not> b7 \<and> \<not> b6 \<and> b5 \<and> b4 \<and> \<not> (b3 \<and> (b2 \<or> b1)))"
  by (cases b0; cases b1; cases b2; cases b3; cases b4; cases b5; cases b6; cases b7;
      simp add: isDigit_def code_of_def)

lemma isLowerAZ_code [code]:
  "isLowerAZ (Char b0 b1 b2 b3 b4 b5 b6 b7) = (\<not> b7 \<and> b6 \<and> b5 \<and> low5_letter b0 b1 b2 b3 b4)"
  by (cases b0; cases b1; cases b2; cases b3; cases b4; cases b5; cases b6; cases b7;
      simp add: isLowerAZ_def code_of_def low5_letter_def)

lemma isUpperAZ_code [code]:
  "isUpperAZ (Char b0 b1 b2 b3 b4 b5 b6 b7) = (\<not> b7 \<and> b6 \<and> \<not> b5 \<and> low5_letter b0 b1 b2 b3 b4)"
  by (cases b0; cases b1; cases b2; cases b3; cases b4; cases b5; cases b6; cases b7;
      simp add: isUpperAZ_def code_of_def low5_letter_def)

lemma isSpace_code [code]:
  "isSpace (Char b0 b1 b2 b3 b4 b5 b6 b7) =
     ((\<not> b7 \<and> \<not> b6 \<and> \<not> b5 \<and> \<not> b4 \<and> b3 \<and> ((\<not> b2 \<and> (b1 \<or> b0)) \<or> (b2 \<and> \<not> b1)))
      \<or> (\<not> b6 \<and> b5 \<and> \<not> b4 \<and> \<not> b3 \<and> \<not> b2 \<and> \<not> b1 \<and> \<not> b0))"
  by (cases b0; cases b1; cases b2; cases b3; cases b4; cases b5; cases b6; cases b7;
      simp add: isSpace_def code_of_def)

lemma isWordChar_code [code]:
  "isWordChar (Char b0 b1 b2 b3 b4 b5 b6 b7) =
     ((\<not> b7 \<and> \<not> b6 \<and> b5 \<and> b4 \<and> \<not> (b3 \<and> (b2 \<or> b1)))
      \<or> (\<not> b7 \<and> b6 \<and> low5_letter b0 b1 b2 b3 b4)
      \<or> (\<not> b7 \<and> b6 \<and> \<not> b5 \<and> b4 \<and> b3 \<and> b2 \<and> b1 \<and> b0))"
  by (cases b0; cases b1; cases b2; cases b3; cases b4; cases b5; cases b6; cases b7;
      simp add: isWordChar_def code_of_def low5_letter_def Let_def)

lemma toLowerCase_char_code [code]:
  "toLowerCase_char (Char b0 b1 b2 b3 b4 b5 b6 b7) =
     (if \<not> b5 \<and> b6 \<and> ((\<not> b7 \<and> low5_letter b0 b1 b2 b3 b4) \<or> (b7 \<and> low5_latin b0 b1 b2 b3 b4))
      then Char b0 b1 b2 b3 b4 True b6 b7 else Char b0 b1 b2 b3 b4 b5 b6 b7)"
  by (cases b0; cases b1; cases b2; cases b3; cases b4; cases b5; cases b6; cases b7;
      simp add: toLowerCase_char_def code_of_def low5_letter_def low5_latin_def Let_def
        char_of_eq_iff)

lemma toUpperCase_char_code [code]:
  "toUpperCase_char (Char b0 b1 b2 b3 b4 b5 b6 b7) =
     (if b5 \<and> b6 \<and> ((\<not> b7 \<and> low5_letter b0 b1 b2 b3 b4) \<or> (b7 \<and> low5_latin b0 b1 b2 b3 b4))
      then Char b0 b1 b2 b3 b4 False b6 b7 else Char b0 b1 b2 b3 b4 b5 b6 b7)"
  by (cases b0; cases b1; cases b2; cases b3; cases b4; cases b5; cases b6; cases b7;
      simp add: toUpperCase_char_def code_of_def low5_letter_def low5_latin_def Let_def
        char_of_eq_iff)

section \<open>Properties of the pricing engine\<close>

subsection \<open>Rounding\<close>

lemma floor_rat_numeral: "\<lfloor>numeral a / numeral b :: rat\<rfloor> = numeral a div numeral b"
  by (metis floor_divide_of_int_eq of_int_numeral)



lemma Math_round_mono: "x \<le> y \<Longrightarrow> Math_round x \<le> Math_round y"
  by (simp add: Math_round_def floor_mono)




subsection \<open>The line items\<close>


lemma surcharge_kinds: "i \<in> set (surchargeLineItems inputs) \<Longrightarrow> kind i = Surcharge"
  by (auto simp: surchargeLineItems_def Let_def split: if_splits option.splits)

lemma foldl_amount:
  "foldl (\<lambda>sum item. sum + amount item) acc items = acc + sum_list (map amount items)"
  by (induction items arbitrary: acc) auto





lemma lineItems_eq:
  "lineItems (calculateUKEstimate inputs) =
     costItems inputs @
       [\<lparr>label = ProjectManagement, amount = Math_round (costTotal inputs * (10 / 100)), kind = Fee\<rparr>,
        \<lparr>label = Contingency, amount = Math_round (costTotal inputs * (5 / 100)), kind = Fee\<rparr>,
        \<lparr>label = NetProfit, amount = Math_round (costTotal inputs * (15 / 100)), kind = Fee\<rparr>]"
  by (simp add: calculateUKEstimate_def Let_def costItems_def costTotal_def foldl_amount roundGBP_def
      BUSINESS_FEES_projectManagement_def BUSINESS_FEES_contingency_def BUSINESS_FEES_netProfit_def)






subsection \<open>Binary64 values\<close>

text \<open>Some binary64 values: 100 is one; 0.1, 1.45 and 10.02 are not and round to a
  neighbour with a significand of 53 bits; an integer above \<open>2^53\<close> rounds to the even
  neighbour.\<close>

lemma double_examples:
  "double 100 = 100"
  "double (1 / 10) = 3602879701896397 / 2 ^ 55"
  "double (145 / 100) = 6530219459687219 / 2 ^ 52"
  "double (501 / 50) = 2820379266640773 / 281474976710656"
  "double (2820379266640773 / 281474976710656) = 2820379266640773 / 281474976710656"
  "double (2 ^ 53 + 1) = 2 ^ 53"
  "double (2 ^ 53 + 3) = 2 ^ 53 + 4"
  by code_simp+

text \<open>Rounding to binary64 moves a number by at most half a unit in the last place, and
  the unit is at most the magnitude of the number, or \<open>2^-1074\<close>.\<close>

lemma round_half_even_error: "\<bar>of_int (round_half_even y) - y\<bar> \<le> 1 / 2"
proof -
  have "of_int \<lfloor>y\<rfloor> \<le> y" "y < of_int \<lfloor>y\<rfloor> + 1" by linarith+
  then show ?thesis
    unfolding round_half_even_def Let_def by (simp split: if_splits)
qed

lemma pow2_powi: "pow2 e = 2 powi e"
  by (simp add: pow2_def power_int_def field_simps)

lemma pow2_pos: "0 < pow2 e"
  by (simp add: pow2_powi)

lemma pow2_mono: "a \<le> b \<Longrightarrow> pow2 a \<le> pow2 b"
  by (simp add: pow2_powi power_int_increasing)

lemma exponent_le:
  assumes "x \<noteq> 0"
  shows "pow2 (exponent x) \<le> \<bar>x\<bar>"
proof -
  obtain p q where pq: "quotient_of \<bar>x\<bar> = (p, q)" by (cases "quotient_of \<bar>x\<bar>")
  then have q: "0 < q" and x: "\<bar>x\<bar> = of_int p / of_int q"
    using quotient_of_denom_pos quotient_of_div by blast+
  have "0 < \<bar>x\<bar>" using assms by simp
  then have "0 < (of_int p :: rat) / of_int q" using x by simp
  then have p: "0 < p" using q by (simp add: zero_less_divide_iff)
  have bp: "2 ^ nat (bitlen p - 1) \<le> p" and bq: "q < 2 ^ nat (bitlen q)"
    using bitlen_bounds p q by blast+
  have p1: "1 \<le> bitlen p" and q1: "0 \<le> bitlen q"
    using p bitlen_nonneg [of q] by (simp_all add: bitlen_def floorlog_def)
  have "pow2 (bitlen p - bitlen q - 1) = pow2 ((bitlen p - 1) - bitlen q)"
    by (simp add: algebra_simps)
  also have "\<dots> = pow2 (bitlen p - 1) / pow2 (bitlen q)"
    using power_int_diff [of "2 :: rat" "bitlen p - 1" "bitlen q"] by (simp add: pow2_powi)
  also have "\<dots> = 2 ^ nat (bitlen p - 1) / 2 ^ nat (bitlen q)"
    using p1 q1 by (simp add: pow2_def)
  also have "\<dots> \<le> of_int p / 2 ^ nat (bitlen q)"
  proof -
    have "(2 :: rat) ^ nat (bitlen p - 1) \<le> of_int p"
      using bp by (metis of_int_le_iff of_int_numeral of_int_power)
    then show ?thesis by (simp add: divide_right_mono)
  qed
  also have "\<dots> \<le> of_int p / of_int q"
  proof -
    have "(of_int q :: rat) \<le> 2 ^ nat (bitlen q)"
      using bq by (metis less_imp_le of_int_le_iff of_int_numeral of_int_power)
    then show ?thesis
      using p q by (simp add: frac_le)
  qed
  finally have "pow2 (bitlen p - bitlen q - 1) \<le> \<bar>x\<bar>" using x by simp
  then show ?thesis
    by (simp add: exponent_def pq Let_def)
qed

lemma double_bound: "\<bar>double x\<bar> \<le> 2 * \<bar>x\<bar> + 1"
proof (cases "x = 0")
  case True
  then show ?thesis by (simp add: double_def)
next
  case False
  define u where "u = pow2 (max (exponent x - 52) (- 1074))"
  have u: "0 < u" by (simp add: u_def pow2_pos)
  have "u \<le> pow2 (exponent x) \<or> u \<le> 1"
  proof (cases "exponent x - 52 \<ge> - 1074")
    case True
    then have "u = pow2 (exponent x - 52)" by (simp add: u_def max_absorb1)
    then show ?thesis using pow2_mono [of "exponent x - 52" "exponent x"] by simp
  next
    case False
    then have "u = pow2 (- 1074)" by (simp add: u_def max_absorb2)
    then show ?thesis using pow2_mono [of "- 1074" 0] by (simp add: pow2_def)
  qed
  then have ub: "u \<le> \<bar>x\<bar> + 1"
    using exponent_le [OF False] by auto
  have "\<bar>of_int (round_half_even (x / u)) - x / u\<bar> \<le> 1 / 2"
    by (rule round_half_even_error)
  then have "\<bar>of_int (round_half_even (x / u)) - x / u\<bar> * u \<le> 1 / 2 * u"
    using u by (intro mult_right_mono) simp_all
  moreover have "of_int (round_half_even (x / u)) * u - x
                   = (of_int (round_half_even (x / u)) - x / u) * u"
    using u by (simp add: field_simps)
  then have "\<bar>of_int (round_half_even (x / u)) * u - x\<bar>
               = \<bar>of_int (round_half_even (x / u)) - x / u\<bar> * u"
    using u by (simp add: abs_mult)
  ultimately have "\<bar>of_int (round_half_even (x / u)) * u - x\<bar> \<le> u / 2"
    by simp
  moreover have "double x = of_int (round_half_even (x / u)) * u"
    using False by (simp add: double_def u_def Let_def)
  ultimately have "\<bar>double x - x\<bar> \<le> u / 2" by simp
  then show ?thesis using ub by linarith
qed

lemma times64_bound: "\<bar>times64 x y\<bar> \<le> 2 * \<bar>x\<bar> * \<bar>y\<bar> + 1"
  using double_bound [of "x * y"] by (simp add: times64_def abs_mult)


text \<open>The literals and the rates of the engine are small, so for a validated area every
  product behind the material and the labor line item is finite.\<close>

lemma literal_bounds:
  "list_all (\<lambda>s. \<bar>baseRates s\<bar> \<le> 1)
     [Hardscaping, Decking, Softscaping, Mowing, Planting, Fencing, Framing]"
  "\<bar>double (145 / 100)\<bar> \<le> 2"
  by code_simp+

lemma baseRates_bound: "\<bar>baseRates s\<bar> \<le> 1"
  using literal_bounds(1) by (cases s) simp_all

lemma rate_bound: "\<bar>UK_2026_RATES_rate s t\<bar> \<le> 850"
  by (cases s; cases t) simp_all

lemma times64_bound_le:
  assumes "\<bar>x\<bar> \<le> X" and "\<bar>y\<bar> \<le> Y"
  shows "\<bar>times64 x y\<bar> \<le> 2 * X * Y + 1"
proof -
  have "\<bar>x\<bar> * \<bar>y\<bar> \<le> X * Y"
    using assms by (intro mult_mono) simp_all
  then show ?thesis
    using times64_bound [of x y] by simp
qed

lemma products_finite:
  assumes "validatedArea a"
  shows "\<bar>times64 a (UK_2026_RATES_rate s t)\<bar> < 2 ^ 1024"
    and "\<bar>estimateLaborHours a s\<bar> < 2 ^ 1024"
    and "\<bar>times64 (estimateLaborHours a s) 85\<bar> < 2 ^ 1024"
    and "\<bar>times64 (times64 (estimateLaborHours a s) 85) (double (145 / 100))\<bar> < 2 ^ 1024"
proof -
  have a: "\<bar>a\<bar> \<le> 10 ^ 300"
    using assms by (simp add: validatedArea_def)
  have m: "\<bar>times64 a (UK_2026_RATES_rate s t)\<bar> \<le> 2 * 10 ^ 300 * 850 + 1"
    by (rule times64_bound_le [OF a rate_bound])
  have h: "\<bar>estimateLaborHours a s\<bar> \<le> 2 * 10 ^ 300 * 1 + 1"
    unfolding estimateLaborHours_def by (rule times64_bound_le [OF a baseRates_bound])
  have c: "\<bar>times64 (estimateLaborHours a s) 85\<bar> \<le> 2 * (2 * 10 ^ 300 * 1 + 1) * 85 + 1"
    by (rule times64_bound_le [OF h]) simp
  have r: "\<bar>times64 (times64 (estimateLaborHours a s) 85) (double (145 / 100))\<bar>
             \<le> 2 * (2 * (2 * 10 ^ 300 * 1 + 1) * 85 + 1) * 2 + 1"
    by (rule times64_bound_le [OF c literal_bounds(2)])
  show "\<bar>times64 a (UK_2026_RATES_rate s t)\<bar> < 2 ^ 1024"
    using m by simp
  show "\<bar>estimateLaborHours a s\<bar> < 2 ^ 1024"
    using h by simp
  show "\<bar>times64 (estimateLaborHours a s) 85\<bar> < 2 ^ 1024"
    using c by simp
  show "\<bar>times64 (times64 (estimateLaborHours a s) 85) (double (145 / 100))\<bar> < 2 ^ 1024"
    using r by simp
qed

subsection \<open>Access multiplier\<close>

text \<open>
  Claim C1. When excavator access is denied, the only labor line item is the
  restricted-access one, and its amount is the labor hours times 85 times 1.45, rounded;
  the only material line item is the area times the tier rate, rounded, and it is the
  material line item of the same input with excavator access granted. The products are
  those of the language, on binary64 values.
\<close>

theorem access_multiplier_labor_only:
  assumes "validatedArea (in_area_m2 inputs)" and "\<not> in_hasExcavatorAccess inputs"
  shows "filter (\<lambda>i. kind i = Labor) (lineItems (calculateUKEstimate inputs)) =
           [\<lparr>label = LaborRestricted,
             amount = Math_round
                        (times64 (times64 (estimateLaborHours (in_area_m2 inputs) (in_service inputs))
                                          85)
                                 (double (145 / 100))),
             kind = Labor\<rparr>]
         \<and> filter (\<lambda>i. kind i = Material) (lineItems (calculateUKEstimate inputs)) =
           [\<lparr>label = MaterialLabel (in_service inputs) (in_materialTier inputs),
             amount = Math_round
                        (times64 (in_area_m2 inputs)
                                 (UK_2026_RATES_rate (in_service inputs) (in_materialTier inputs))),
             kind = Material\<rparr>]
         \<and> filter (\<lambda>i. kind i = Material)
              (lineItems (calculateUKEstimate (inputs\<lparr>in_hasExcavatorAccess := True\<rparr>))) =
           filter (\<lambda>i. kind i = Material) (lineItems (calculateUKEstimate inputs))"
proof -
  have s1: "filter (\<lambda>i. kind i = Labor) (surchargeLineItems inp) = []"
    and s2: "filter (\<lambda>i. kind i = Material) (surchargeLineItems inp) = []" for inp
    by (auto simp: filter_empty_conv dest: surcharge_kinds)
  show ?thesis
    using assms(2)
    by (simp add: lineItems_eq costItems_def s1 s2)
       (simp add: materialLineItem_def laborLineItem_def Let_def roundGBP_def
          LABOR_RATE_PER_HOUR_GBP_def)
qed

text \<open>The amounts of the two examples. For 100 square metres the labor cost is 4250 times
  the binary64 value of 1.45, which rounds to 6162.5; for 10.02 square metres the material
  cost is the binary64 value of 10.02 times 125, which rounds to 1252.5.\<close>

lemma examplePatio_amounts:
  "Math_round (times64 (times64 (estimateLaborHours (in_area_m2 examplePatio)
                                                    (in_service examplePatio)) 85)
                       (double (145 / 100))) = 6163"
  "Math_round (times64 (in_area_m2 examplePatio)
                       (UK_2026_RATES_rate (in_service examplePatio)
                                           (in_materialTier examplePatio))) = 9500"
  by code_simp+

lemma examplePremiumPatio_amounts:
  "Math_round (times64 (times64 (estimateLaborHours (in_area_m2 examplePremiumPatio)
                                                    (in_service examplePremiumPatio)) 85)
                       (double (145 / 100))) = 617"
  "Math_round (times64 (in_area_m2 examplePremiumPatio)
                       (UK_2026_RATES_rate (in_service examplePremiumPatio)
                                           (in_materialTier examplePremiumPatio))) = 1253"
  by code_simp+

text \<open>The example of the specification: 100 square metres of standard hardscaping without
  excavator access cost 6163 pounds of labor and 9500 pounds of material, with or without
  access; 10.02 square metres in premium tier cost 617 pounds of labor and 1253 pounds of
  material.\<close>

theorem access_multiplier_labor_only_witness:
  "validatedArea (in_area_m2 examplePatio) \<and> \<not> in_hasExcavatorAccess examplePatio
   \<and> map amount (filter (\<lambda>i. kind i = Labor) (lineItems (calculateUKEstimate examplePatio)))
       = [6163]
   \<and> map amount (filter (\<lambda>i. kind i = Material) (lineItems (calculateUKEstimate examplePatio)))
       = [9500]
   \<and> map amount (filter (\<lambda>i. kind i = Material)
        (lineItems (calculateUKEstimate (examplePatio\<lparr>in_hasExcavatorAccess := True\<rparr>))))
       = [9500]
   \<and> validatedArea (in_area_m2 examplePremiumPatio)
   \<and> \<not> in_hasExcavatorAccess examplePremiumPatio
   \<and> map amount (filter (\<lambda>i. kind i = Labor)
        (lineItems (calculateUKEstimate examplePremiumPatio))) = [617]
   \<and> map amount (filter (\<lambda>i. kind i = Material)
        (lineItems (calculateUKEstimate examplePremiumPatio))) = [1253]"
proof -
  have v: "validatedArea (in_area_m2 examplePatio)"
    and v': "validatedArea (in_area_m2 examplePremiumPatio)"
    by (simp_all add: examplePatio_def examplePremiumPatio_def validatedArea_def isBinary64_def
        double_examples)
  have h: "\<not> in_hasExcavatorAccess examplePatio"
    and h': "\<not> in_hasExcavatorAccess examplePremiumPatio"
    by (simp_all add: examplePatio_def examplePremiumPatio_def)
  show ?thesis
    using v h v' h'
      access_multiplier_labor_only [OF v h, unfolded examplePatio_amounts]
      access_multiplier_labor_only [OF v' h', unfolded examplePremiumPatio_amounts]
    by simp
qed

text \<open>Two further amounts: 4.1 square metres of standard hardscaping cost 389 pounds of
  material (the product is just below 389.5), and 3 square metres of softscaping with
  excavator access cost 76 pounds of labor (the hours are just below 0.9).\<close>

lemma further_amounts:
  "Math_round (times64 (double (41 / 10)) (UK_2026_RATES_rate Hardscaping Standard)) = 389"
  "Math_round (times64 (estimateLaborHours 3 Softscaping) 85) = 76"
  by code_simp+

subsection \<open>Demolition waste\<close>




subsection \<open>Ballpark range and priority tier\<close>


text \<open>
  Claim C6. An estimate of 5000 is Standard and one of 5001 is VIP PRIORITY; the status of
  an estimate result is VIP PRIORITY exactly when its point estimate exceeds 5000.
\<close>

theorem priority_threshold:
  "determineProjectStatus 5000 = StandardStatus
   \<and> determineProjectStatus 5001 = VIP_PRIORITY
   \<and> (determineProjectStatus e = VIP_PRIORITY \<longleftrightarrow> e > 5000)
   \<and> (projectStatus (calculateUKEstimate inputs) = VIP_PRIORITY
        \<longleftrightarrow> estimate (calculateUKEstimate inputs) > 5000)"
  by (simp add: determineProjectStatus_def calculateUKEstimate_def Let_def)

section \<open>Properties of the conversation manager\<close>

subsection \<open>Ready for estimate\<close>

text \<open>
  Claim C3, as stated, for every copy of the function: it fails. The older copy answers
  true for a state without a budget (and without a postcode) whose certainty level is 85.
\<close>

theorem legacy_ready_without_budget_counterexample:
  "userBudget (createInitialState\<lparr>certaintyLevel := 85\<rparr>) = None
   \<and> postalCode (createInitialState\<lparr>certaintyLevel := 85\<rparr>) = None
   \<and> isReadyForEstimate_legacy (createInitialState\<lparr>certaintyLevel := 85\<rparr>)"
  by (simp add: createInitialState_def isReadyForEstimate_legacy_def)

text \<open>
  Claim C3, amended: for \<open>isReadyForEstimate\<close> of the current conversation manager, a state
  without a budget or without a postcode is never ready for an estimate, whatever its
  certainty level.
\<close>

theorem not_ready_without_budget_or_postcode:
  assumes "userBudget s = None \<or> postalCode s = None"
  shows "\<not> isReadyForEstimate s"
  using assms by (auto simp add: isReadyForEstimate_def)

text \<open>A mowing conversation with certainty 100 and a postcode, but no budget.\<close>

theorem not_ready_without_budget_or_postcode_witness:
  "(userBudget (createInitialState\<lparr>service := Some Mowing, certaintyLevel := 100,
                                   postalCode := Some ''SL4 1AA''\<rparr>) = None
    \<or> postalCode (createInitialState\<lparr>service := Some Mowing, certaintyLevel := 100,
                                     postalCode := Some ''SL4 1AA''\<rparr>) = None)
   \<and> \<not> isReadyForEstimate (createInitialState\<lparr>service := Some Mowing, certaintyLevel := 100,
                                                postalCode := Some ''SL4 1AA''\<rparr>)"
proof -
  have h: "userBudget (createInitialState\<lparr>service := Some Mowing, certaintyLevel := 100,
                                   postalCode := Some ''SL4 1AA''\<rparr>) = None
    \<or> postalCode (createInitialState\<lparr>service := Some Mowing, certaintyLevel := 100,
                                     postalCode := Some ''SL4 1AA''\<rparr>) = None"
    by (simp add: createInitialState_def)
  show ?thesis using h not_ready_without_budget_or_postcode [OF h] by simp
qed

subsection \<open>Certainty\<close>

lemma pts_simps [simp]: "pts None w = 0" "pts (Some v) w = w"
  by (simp_all add: pts_def)

lemma pts_bounds: "0 \<le> w \<Longrightarrow> 0 \<le> pts x w \<and> pts x w \<le> w"
  by (simp add: pts_def)

lemma dimsPoints_bounds: "0 \<le> dimsPoints s \<and> dimsPoints s \<le> 30"
  by (simp add: dimsPoints_def)

text \<open>The score by service: mowing, the lighter bundle of planting and softscaping, and
  the full site bundle of the other services and of a state without service.\<close>

lemma cert_mowing:
  "service s = Some Mowing \<Longrightarrow>
   calculateCertainty s
     = Math_round ((25 + dimsPoints s + pts (materialTier s) 20 + pts (overgrown s) 25) / 100 * 100)"
  by (simp add: calculateCertainty_def Let_def dimsPoints_def pts_def)

lemma cert_light:
  "service s = Some Planting \<or> service s = Some Softscaping \<Longrightarrow>
   calculateCertainty s
     = Math_round ((25 + dimsPoints s + pts (materialTier s) 20 + pts (slopeLevel s) 5
                    + pts (hasDrivewayForSkip s) 5) / 85 * 100)"
  by (auto simp add: calculateCertainty_def Let_def dimsPoints_def pts_def)

lemma cert_full:
  "service s \<noteq> Some Mowing \<Longrightarrow> service s \<noteq> Some Planting \<Longrightarrow> service s \<noteq> Some Softscaping \<Longrightarrow>
   calculateCertainty s
     = Math_round ((pts (service s) 25 + dimsPoints s + pts (materialTier s) 20
                    + pts (hasExcavatorAccess s) 10 + pts (hasDrivewayForSkip s) 5
                    + pts (slopeLevel s) 5 + pts (existingDemolition s) 5) / 100 * 100)"
  by (simp add: calculateCertainty_def Let_def dimsPoints_def pts_def)

text \<open>With the service unchanged, the score grows with the points.\<close>

lemma cert_mono_same_service:
  assumes sv: "service s' = service s"
    and d: "dimsPoints s \<le> dimsPoints s'"
    and t: "pts (materialTier s) 20 \<le> pts (materialTier s') 20"
    and o: "pts (overgrown s) 25 \<le> pts (overgrown s') 25"
    and l: "pts (slopeLevel s) 5 \<le> pts (slopeLevel s') 5"
    and r: "pts (hasDrivewayForSkip s) 5 \<le> pts (hasDrivewayForSkip s') 5"
    and e: "pts (hasExcavatorAccess s) 10 \<le> pts (hasExcavatorAccess s') 10"
    and m: "pts (existingDemolition s) 5 \<le> pts (existingDemolition s') 5"
  shows "calculateCertainty s \<le> calculateCertainty s'"
proof -
  consider (mow) "service s = Some Mowing"
    | (light) "service s = Some Planting \<or> service s = Some Softscaping"
    | (full) "service s \<noteq> Some Mowing" "service s \<noteq> Some Planting" "service s \<noteq> Some Softscaping"
    by blast
  then show ?thesis
  proof cases
    case mow
    then have "service s' = Some Mowing" using sv by simp
    then show ?thesis
      using mow d t o by (simp only: cert_mowing) (intro Math_round_mono, simp)
  next
    case light
    then have "service s' = Some Planting \<or> service s' = Some Softscaping" using sv by simp
    then show ?thesis
      using light d t l r by (simp only: cert_light) (intro Math_round_mono, simp)
  next
    case full
    then have "service s' \<noteq> Some Mowing" "service s' \<noteq> Some Planting" "service s' \<noteq> Some Softscaping"
      using sv by simp_all
    then show ?thesis
      using full d t l r e m sv by (simp only: cert_full) (intro Math_round_mono, simp)
  qed
qed

text \<open>Setting the service moves the state from the full bundle (out of 100) to the bundle
  of the service: 25 points are gained, at most the 25 site points are lost for mowing,
  and at most 15 for planting and softscaping, whose maximum is 85.\<close>

lemma cert_mono_service:
  assumes "service s = None"
  shows "calculateCertainty s \<le> calculateCertainty (s\<lparr>service := Some v\<rparr>)"
proof -
  let ?s' = "s\<lparr>service := Some v\<rparr>"
  have d: "dimsPoints (s\<lparr>service := x\<rparr>) = dimsPoints s" for x
    by (simp add: dimsPoints_def)
  have lhs: "calculateCertainty s
     = Math_round ((dimsPoints s + pts (materialTier s) 20
                    + pts (hasExcavatorAccess s) 10 + pts (hasDrivewayForSkip s) 5
                    + pts (slopeLevel s) 5 + pts (existingDemolition s) 5) / 100 * 100)"
    using assms by (simp add: cert_full)
  note b = dimsPoints_bounds [of s] pts_bounds [of 20 "materialTier s"]
    pts_bounds [of 10 "hasExcavatorAccess s"] pts_bounds [of 5 "hasDrivewayForSkip s"]
    pts_bounds [of 5 "slopeLevel s"] pts_bounds [of 5 "existingDemolition s"]
    pts_bounds [of 25 "overgrown s"]
  consider (mow) "v = Mowing" | (light) "v = Planting \<or> v = Softscaping"
    | (full) "v \<noteq> Mowing" "v \<noteq> Planting" "v \<noteq> Softscaping"
    by blast
  then show ?thesis
  proof cases
    case mow
    then have "calculateCertainty ?s'
      = Math_round ((25 + dimsPoints s + pts (materialTier s) 20 + pts (overgrown s) 25) / 100 * 100)"
      by (simp add: cert_mowing d)
    then show ?thesis using b by (simp only: lhs) (intro Math_round_mono, simp)
  next
    case light
    then have "calculateCertainty ?s'
      = Math_round ((25 + dimsPoints s + pts (materialTier s) 20 + pts (slopeLevel s) 5
                    + pts (hasDrivewayForSkip s) 5) / 85 * 100)"
      by (subst cert_light) (auto simp: d)
    then show ?thesis using b by (simp only: lhs) (intro Math_round_mono, simp)
  next
    case full
    then have "calculateCertainty ?s'
      = Math_round ((25 + dimsPoints s + pts (materialTier s) 20
                    + pts (hasExcavatorAccess s) 10 + pts (hasDrivewayForSkip s) 5
                    + pts (slopeLevel s) 5 + pts (existingDemolition s) 5) / 100 * 100)"
      by (simp add: cert_full d)
    then show ?thesis using b by (simp only: lhs) (intro Math_round_mono, simp)
  qed
qed

text \<open>
  Claim C9. If \<open>s'\<close> is \<open>s\<close> with one field changed from null to a value, the certainty of
  \<open>s'\<close> is at least the certainty of \<open>s\<close>.
\<close>

theorem certainty_monotone:
  assumes "sets_one_field s s'"
  shows "calculateCertainty s \<le> calculateCertainty s'"
  using assms
proof (cases rule: sets_one_field.cases)
  case (1 v)
  then show ?thesis by (simp add: cert_mono_service)
qed (rule cert_mono_same_service; simp add: dimsPoints_def truthy_num_def pts_def)+

text \<open>Choosing planting at the start of a conversation raises the certainty from 0 to 29.\<close>

theorem certainty_monotone_witness:
  "sets_one_field createInitialState (createInitialState\<lparr>service := Some Planting\<rparr>)
   \<and> calculateCertainty createInitialState = 0
   \<and> calculateCertainty (createInitialState\<lparr>service := Some Planting\<rparr>) = 29
   \<and> calculateCertainty createInitialState
       \<le> calculateCertainty (createInitialState\<lparr>service := Some Planting\<rparr>)"
proof -
  have h: "sets_one_field createInitialState (createInitialState\<lparr>service := Some Planting\<rparr>)"
    by (rule sets_one_field.intros) (simp add: createInitialState_def)
  have "calculateCertainty createInitialState = 0"
    by code_simp
  moreover have "calculateCertainty (createInitialState\<lparr>service := Some Planting\<rparr>) = 29"
    by code_simp
  ultimately show ?thesis
    using h certainty_monotone [OF h] by simp
qed

subsection \<open>State update\<close>

lemma assign_if_True: "assign_if True f u = f u"
  by (simp add: assign_if_def)

lemma assign_if_False: "assign_if False f u = u"
  by (simp add: assign_if_def)

text \<open>An assignment to another field leaves a field as it is.\<close>

lemma assign_if_frame: "(\<And>v. g (f v) = g v) \<Longrightarrow> g (assign_if c f u) = g u"
  by (simp add: assign_if_def)

lemmas frames =
  assign_if_frame [of service] assign_if_frame [of area_m2] assign_if_frame [of length_m]
  assign_if_frame [of width_m] assign_if_frame [of materialTier]
  assign_if_frame [of hasExcavatorAccess] assign_if_frame [of hasDrivewayForSkip]
  assign_if_frame [of slopeLevel] assign_if_frame [of existingDemolition]
  assign_if_frame [of deckHeight_m] assign_if_frame [of overgrown] assign_if_frame [of gateCount]
  assign_if_frame [of budgetAligns] assign_if_frame [of fullName] assign_if_frame [of userBudget]
  assign_if_frame [of contactEmail] assign_if_frame [of contactPhone]
  assign_if_frame [of postalCode]

text \<open>
  Claim C10. If neither the state nor the extraction result has the service decking, the
  deck height of the updated state is the deck height of the state, whatever deck height
  the extraction result carries.
\<close>

theorem deck_height_only_for_decking:
  assumes "service s \<noteq> Some Decking" and "x_service e \<noteq> Some Decking"
  shows "deckHeight_m (updateStateWithExtraction s e) = deckHeight_m s"
  using assms
  by (simp add: updateStateWithExtraction_def Let_def assign_if_False
      assign_if_frame [of deckHeight_m])

text \<open>A deck height of 2 metres extracted in a hardscaping conversation is dropped.\<close>

theorem deck_height_only_for_decking_witness:
  "service (createInitialState\<lparr>service := Some Hardscaping\<rparr>) \<noteq> Some Decking
   \<and> x_service (emptyExtraction\<lparr>x_deckHeight_m := Some 2\<rparr>) \<noteq> Some Decking
   \<and> deckHeight_m (updateStateWithExtraction (createInitialState\<lparr>service := Some Hardscaping\<rparr>)
                     (emptyExtraction\<lparr>x_deckHeight_m := Some 2\<rparr>)) = None"
proof -
  have h1: "service (createInitialState\<lparr>service := Some Hardscaping\<rparr>) \<noteq> Some Decking"
    by simp
  have h2: "x_service (emptyExtraction\<lparr>x_deckHeight_m := Some 2\<rparr>) \<noteq> Some Decking"
    by (simp add: emptyExtraction_def)
  show ?thesis
    using h1 h2 deck_height_only_for_decking [OF h1 h2]
    by (simp add: createInitialState_def)
qed

text \<open>What the merge does with one field of the extraction result.\<close>

lemma truthy_num_set: "truthy_num x \<Longrightarrow> x \<noteq> None"
  by (cases x) (simp_all add: truthy_num_def)

lemma truthy_str_set: "truthy_str x \<Longrightarrow> x \<noteq> None"
  by (cases x) (simp_all add: truthy_str_def)

lemma update_service:
  "x_service e \<noteq> None \<Longrightarrow> service (updateStateWithExtraction s e) = x_service e"
  by (simp add: updateStateWithExtraction_def Let_def frames assign_if_True)

lemma update_materialTier:
  "x_materialTier e \<noteq> None \<Longrightarrow> materialTier (updateStateWithExtraction s e) = x_materialTier e"
  by (simp add: updateStateWithExtraction_def Let_def frames assign_if_True)

lemma update_hasExcavatorAccess:
  "x_hasExcavatorAccess e \<noteq> None
   \<Longrightarrow> hasExcavatorAccess (updateStateWithExtraction s e) = x_hasExcavatorAccess e"
  by (simp add: updateStateWithExtraction_def Let_def frames assign_if_True)

lemma update_hasDrivewayForSkip:
  "x_hasDrivewayForSkip e \<noteq> None
   \<Longrightarrow> hasDrivewayForSkip (updateStateWithExtraction s e) = x_hasDrivewayForSkip e"
  by (simp add: updateStateWithExtraction_def Let_def frames assign_if_True)

lemma update_slopeLevel:
  "x_slopeLevel e \<noteq> None \<Longrightarrow> slopeLevel (updateStateWithExtraction s e) = x_slopeLevel e"
  by (simp add: updateStateWithExtraction_def Let_def frames assign_if_True)

lemma update_existingDemolition:
  "x_existingDemolition e \<noteq> None
   \<Longrightarrow> existingDemolition (updateStateWithExtraction s e) = x_existingDemolition e"
  by (simp add: updateStateWithExtraction_def Let_def frames assign_if_True)

lemma update_overgrown:
  "x_overgrown e \<noteq> None \<Longrightarrow> overgrown (updateStateWithExtraction s e) = x_overgrown e"
  by (simp add: updateStateWithExtraction_def Let_def frames assign_if_True)

lemma update_budgetAligns:
  "x_budgetAligns e \<noteq> None \<Longrightarrow> budgetAligns (updateStateWithExtraction s e) = x_budgetAligns e"
  by (simp add: updateStateWithExtraction_def Let_def frames assign_if_True)

lemma update_deckHeight_m:
  "x_deckHeight_m e \<noteq> None \<Longrightarrow> service s = Some Decking
   \<Longrightarrow> deckHeight_m (updateStateWithExtraction s e) = x_deckHeight_m e"
  by (simp add: updateStateWithExtraction_def Let_def frames assign_if_True)

lemma update_gateCount:
  "truthy_num (x_gateCount e) \<Longrightarrow> gateCount (updateStateWithExtraction s e) = x_gateCount e"
  by (simp add: updateStateWithExtraction_def Let_def frames assign_if_True)

text \<open>A gate count of zero is not merged: \<open>if (extracted.gateCount)\<close> is false for 0.\<close>

lemma update_gateCount_zero:
  "\<not> truthy_num (x_gateCount e) \<Longrightarrow> gateCount (updateStateWithExtraction s e) = gateCount s"
  by (simp add: updateStateWithExtraction_def Let_def frames assign_if_False)

lemma update_fullName:
  "truthy_str (x_fullName e) \<Longrightarrow> currentField_of s = ''fullName''
   \<Longrightarrow> fullName (updateStateWithExtraction s e) = x_fullName e"
  by (simp add: updateStateWithExtraction_def Let_def frames assign_if_True)

lemma update_contactPhone:
  "truthy_str (x_contactPhone e) \<Longrightarrow> contactPhone (updateStateWithExtraction s e) = x_contactPhone e"
  by (simp add: updateStateWithExtraction_def Let_def frames assign_if_True)

lemma update_contactEmail:
  "truthy_str (x_contactEmail e) \<Longrightarrow> contactEmail (updateStateWithExtraction s e) = x_contactEmail e"
  by (simp add: updateStateWithExtraction_def Let_def frames assign_if_True)

lemma update_userBudget:
  "x_userBudget e \<noteq> None \<Longrightarrow> currentField_of s = ''userBudget'' \<or> x_explicitBudget e = Some True
   \<Longrightarrow> userBudget (updateStateWithExtraction s e) = x_userBudget e"
  by (auto simp add: updateStateWithExtraction_def Let_def frames assign_if_True)

lemma update_userBudget_none:
  "x_userBudget e = None \<Longrightarrow> userBudget (updateStateWithExtraction s e) = userBudget s"
  by (simp add: updateStateWithExtraction_def Let_def frames assign_if_False)

text \<open>An area of 2 or more is always taken, and then no area is derived.\<close>

lemma update_area_m2:
  "truthy_num (x_area_m2 e) \<Longrightarrow> \<not> num_lt (x_area_m2 e) 2
   \<Longrightarrow> area_m2 (updateStateWithExtraction s e) = x_area_m2 e"
  by (simp add: updateStateWithExtraction_def Let_def frames assign_if_True assign_if_False)

text \<open>Without an extracted area, a length and a width give the area of a state that has
  none.\<close>

lemma update_area_from_dimensions:
  "x_area_m2 e = None \<Longrightarrow> x_length_m e = Some l \<Longrightarrow> x_width_m e = Some w \<Longrightarrow> l \<noteq> 0 \<Longrightarrow> w \<noteq> 0
   \<Longrightarrow> area_m2 s = None
   \<Longrightarrow> area_m2 (updateStateWithExtraction s e) = Some (l * w)"
  by (simp add: updateStateWithExtraction_def Let_def frames assign_if_True assign_if_False
      truthy_num_def num_times_def)

lemma update_no_dimensions:
  "\<not> truthy_num (x_area_m2 e) \<Longrightarrow> \<not> truthy_num (x_length_m e) \<Longrightarrow> area_m2 s = None
   \<Longrightarrow> length_m s = None
   \<Longrightarrow> area_m2 (updateStateWithExtraction s e) = None
       \<and> length_m (updateStateWithExtraction s e) = None"
  by (simp add: updateStateWithExtraction_def Let_def frames assign_if_True assign_if_False
      truthy_num_def)

section \<open>Properties of the extractor\<close>

subsection \<open>The fields of the extraction result\<close>

lemma x_fields:
  "x_service (extractLocalInformation u) = extract_service (toLowerCase u)"
  "x_length_m (extractLocalInformation u) = fst (extract_dimensions u)"
  "x_width_m (extractLocalInformation u) = snd (extract_dimensions u)"
  "x_area_m2 (extractLocalInformation u)
     = extract_area u (toLowerCase u) (fst (extract_dimensions u))
         (snd (extract_deckHeight u (toLowerCase u)))"
  "x_materialTier (extractLocalInformation u) = extract_materialTier (toLowerCase u)"
  "x_hasExcavatorAccess (extractLocalInformation u) = extract_hasExcavatorAccess (toLowerCase u)"
  "x_hasDrivewayForSkip (extractLocalInformation u) = extract_hasDrivewayForSkip (toLowerCase u)"
  "x_slopeLevel (extractLocalInformation u) = extract_slopeLevel (toLowerCase u)"
  "x_existingDemolition (extractLocalInformation u) = extract_existingDemolition (toLowerCase u)"
  "x_deckHeight_m (extractLocalInformation u) = fst (extract_deckHeight u (toLowerCase u))"
  "x_overgrown (extractLocalInformation u) = extract_overgrown u (toLowerCase u)"
  "x_gateCount (extractLocalInformation u) = extract_gateCount u (toLowerCase u)"
  "x_budgetAligns (extractLocalInformation u) = extract_budgetAligns (toLowerCase u)"
  "x_fullName (extractLocalInformation u) = extract_fullName u (toLowerCase u)"
  "x_contactPhone (extractLocalInformation u) = extract_contactPhone u"
  "x_contactEmail (extractLocalInformation u) = extract_contactEmail u"
  "x_postalCode (extractLocalInformation u) = extract_postalCode u"
  "x_userBudget (extractLocalInformation u)
     = fst (extract_budget u (toLowerCase u) (extract_contactPhone u))"
  "x_explicitBudget (extractLocalInformation u)
     = snd (extract_budget u (toLowerCase u) (extract_contactPhone u))"
  by (simp_all add: extractLocalInformation_def Let_def)

subsection \<open>Length, width and area\<close>

lemma ev_fence:
  "extract_dimensions ''10m x 2m fence'' = (Some 10, Some 2)"
  "extract_area ''10m x 2m fence'' (toLowerCase ''10m x 2m fence'') (Some 10)
     (snd (extract_deckHeight ''10m x 2m fence'' (toLowerCase ''10m x 2m fence''))) = Some 10"
  by code_simp+

lemma ev_10x5:
  "extract_dimensions ''10x5'' = (Some 10, Some 5)"
  "\<not> any_includes (toLowerCase ''10x5'') [''fence'', ''fencing'']"
  "extract_area ''10x5'' (toLowerCase ''10x5'') (Some 10)
     (snd (extract_deckHeight ''10x5'' (toLowerCase ''10x5''))) = None"
  by code_simp+

text \<open>
  Claim C2, as stated: it fails. For "10m x 2m fence" the extractor sets the length 10 and
  the width 2 from the dimension pattern, and the area 10 from the linear metres of a
  fence.
\<close>

theorem length_width_area_fence_counterexample:
  "x_length_m (extractLocalInformation ''10m x 2m fence'') = Some 10
   \<and> x_width_m (extractLocalInformation ''10m x 2m fence'') = Some 2
   \<and> x_area_m2 (extractLocalInformation ''10m x 2m fence'') = Some 10"
  by (simp add: x_fields ev_fence)

text \<open>The older copy of the geometry block on "10x5".\<close>

lemma ev_10x5_legacy:
  "extract_dimensions_legacy ''10x5'' = (Some 10, Some 5)"
  "extract_area_legacy ''10x5'' (toLowerCase ''10x5'') (Some 10) = None"
  by code_simp+

lemma geometry_legacy_10x5: "extract_geometry_legacy ''10x5'' = (Some 10, Some 5, None)"
  by (simp add: extract_geometry_legacy_def Let_def ev_10x5_legacy)

text \<open>
  Claim C2, amended: for an utterance that mentions neither "fence" nor "fencing", if the
  extraction result has a length other than zero and a width, it has no area. This holds
  for the extractor and for the older copy of its geometry block.
\<close>

theorem length_width_exclude_area:
  assumes "\<not> any_includes (toLowerCase u) [''fence'', ''fencing'']"
  shows "(x_length_m (extractLocalInformation u) = Some l \<and> l \<noteq> 0
            \<and> x_width_m (extractLocalInformation u) \<noteq> None
          \<longrightarrow> x_area_m2 (extractLocalInformation u) = None)
       \<and> (extract_geometry_legacy u = (Some l', w', a') \<and> l' \<noteq> 0 \<and> w' \<noteq> None
          \<longrightarrow> a' = None)"
proof -
  have "x_area_m2 (extractLocalInformation u) = None"
    if "x_length_m (extractLocalInformation u) = Some l" and "l \<noteq> 0"
    using that assms
    by (simp add: x_fields extract_area_def Let_def truthy_num_def split: option.splits)
  moreover have "a' = None"
    if "extract_geometry_legacy u = (Some l', w', a')" and "l' \<noteq> 0"
    using that assms
    by (auto simp add: extract_geometry_legacy_def extract_area_legacy_def Let_def truthy_num_def
        split: option.splits)
  ultimately show ?thesis by blast
qed

theorem length_width_exclude_area_witness:
  "\<not> any_includes (toLowerCase ''10x5'') [''fence'', ''fencing'']
   \<and> x_length_m (extractLocalInformation ''10x5'') = Some 10 \<and> (10 :: rat) \<noteq> 0
   \<and> x_width_m (extractLocalInformation ''10x5'') \<noteq> None
   \<and> x_area_m2 (extractLocalInformation ''10x5'') = None
   \<and> extract_geometry_legacy ''10x5'' = (Some 10, Some 5, None) \<and> Some (5 :: rat) \<noteq> None"
proof -
  have h1: "x_length_m (extractLocalInformation ''10x5'') = Some 10"
    and h2: "x_width_m (extractLocalInformation ''10x5'') \<noteq> None"
    by (simp_all add: x_fields ev_10x5)
  note h3 = ev_10x5(2)
  note h4 = geometry_legacy_10x5
  show ?thesis
    using h1 h2 h3 h4 length_width_exclude_area [OF h3, of 10 10 "Some 5" None] by simp
qed

subsection \<open>Round trip\<close>

lemma ev_roundtrip:
  "extract_dimensions ''10,5m x 5,2m'' = (Some (21 / 2), Some (26 / 5))"
  "extract_budget (CHR 0xA3 # ''7.5k'') (toLowerCase (CHR 0xA3 # ''7.5k''))
     (extract_contactPhone (CHR 0xA3 # ''7.5k'')) = (Some 7500, Some True)"
  by code_simp+

text \<open>
  Claim C7. "10x5" gives the length 10 and the width 5, and merged into a state without
  geometry the area 50; "10,5m x 5,2m" gives the length 10.5 and the width 5.2; the pound
  sign followed by "7.5k", merged when the currently-asked field is the budget, gives the
  budget 7500.
\<close>

theorem round_trip_parsing:
  "x_length_m (extractLocalInformation ''10x5'') = Some 10
   \<and> x_width_m (extractLocalInformation ''10x5'') = Some 5
   \<and> (area_m2 s = None \<and> length_m s = None \<and> width_m s = None
        \<longrightarrow> area_m2 (updateStateWithExtraction s (extractLocalInformation ''10x5'')) = Some 50)
   \<and> x_length_m (extractLocalInformation ''10,5m x 5,2m'') = Some (105 / 10)
   \<and> x_width_m (extractLocalInformation ''10,5m x 5,2m'') = Some (52 / 10)
   \<and> (currentField_of s' = ''userBudget''
        \<longrightarrow> userBudget (updateStateWithExtraction s' (extractLocalInformation (CHR 0xA3 # ''7.5k'')))
            = Some 7500)"
proof -
  have a: "x_area_m2 (extractLocalInformation ''10x5'') = None"
    and l: "x_length_m (extractLocalInformation ''10x5'') = Some 10"
    and w: "x_width_m (extractLocalInformation ''10x5'') = Some 5"
    by (simp_all add: x_fields ev_10x5)
  have b: "x_userBudget (extractLocalInformation (CHR 0xA3 # ''7.5k'')) = Some 7500"
    by (simp add: x_fields ev_roundtrip)
  have "area_m2 (updateStateWithExtraction s (extractLocalInformation ''10x5'')) = Some 50"
    if "area_m2 s = None"
    using update_area_from_dimensions [OF a l w _ _ that] by simp
  moreover have "userBudget (updateStateWithExtraction s' (extractLocalInformation (CHR 0xA3 # ''7.5k'')))
            = Some 7500" if "currentField_of s' = ''userBudget''"
    using update_userBudget [of "extractLocalInformation (CHR 0xA3 # ''7.5k'')" s'] that b by simp
  ultimately show ?thesis
    by (simp add: l w) (simp add: x_fields ev_roundtrip)
qed

theorem round_trip_parsing_witness:
  "(area_m2 createInitialState = None \<and> length_m createInitialState = None
    \<and> width_m createInitialState = None)
   \<and> area_m2 (updateStateWithExtraction createInitialState (extractLocalInformation ''10x5''))
       = Some 50
   \<and> currentField_of (createInitialState\<lparr>lastQuestionField := Some ''userBudget''\<rparr>) = ''userBudget''
   \<and> userBudget (updateStateWithExtraction
                   (createInitialState\<lparr>lastQuestionField := Some ''userBudget''\<rparr>)
                   (extractLocalInformation (CHR 0xA3 # ''7.5k''))) = Some 7500"
proof -
  have h1: "area_m2 createInitialState = None \<and> length_m createInitialState = None
    \<and> width_m createInitialState = None"
    by (simp add: createInitialState_def)
  have h2: "currentField_of (createInitialState\<lparr>lastQuestionField := Some ''userBudget''\<rparr>)
              = ''userBudget''"
    by (simp add: currentField_of_def)
  show ?thesis
    using h1 h2
      round_trip_parsing
        [of createInitialState "createInitialState\<lparr>lastQuestionField := Some ''userBudget''\<rparr>"]
    by simp
qed

section \<open>Properties of the quick replies\<close>

subsection \<open>The extractor on the literals\<close>

text \<open>The extractor on the quick-reply literals of both copies of the module, field by
  field.\<close>

lemma ev_service:
  "list_all (\<lambda>v. extract_service (toLowerCase v) \<noteq> None)
     [''patio'', ''decking'', ''lawn mowing'', ''landscaping'', ''planting'', ''fencing'',
      ''pergola'']"
  by code_simp

lemma ev_dimensions:
  "list_all (\<lambda>v. truthy_num (extract_area v (toLowerCase v) (fst (extract_dimensions v))
                               (snd (extract_deckHeight v (toLowerCase v))))
               \<and> \<not> num_lt (extract_area v (toLowerCase v) (fst (extract_dimensions v))
                               (snd (extract_deckHeight v (toLowerCase v)))) 2)
     [''15 square meters'', ''35 square meters'', ''75 square meters'', ''120 square meters'']"
  by code_simp

lemma ev_materialTier:
  "list_all (\<lambda>v. extract_materialTier (toLowerCase v) \<noteq> None)
     (tierReplies Hardscaping @ tierReplies Decking @ tierReplies Mowing @ tierReplies Planting
      @ tierReplies Fencing @ tierReplies Framing @ tierReplies Softscaping
      @ [''budget option'', ''mid range'', ''premium quality'', ''essential option'',
         ''luxury ''])"
  by code_simp

lemma ev_excavatorAccess:
  "list_all (\<lambda>v. extract_hasExcavatorAccess (toLowerCase v) \<noteq> None)
     [''yes it fits'', ''narrow access'', ''yes wide access'', ''narrow gate'']"
  by code_simp

lemma ev_driveway:
  "list_all (\<lambda>v. extract_hasDrivewayForSkip (toLowerCase v) \<noteq> None)
     [''yes driveway'', ''on the street'', ''on street'']"
  by code_simp

lemma ev_slope:
  "list_all (\<lambda>v. extract_slopeLevel (toLowerCase v) \<noteq> None)
     [''flat'', ''moderate slope'', ''steep slope'', ''flat ground'']"
  by code_simp

lemma ev_demolition:
  "list_all (\<lambda>v. extract_existingDemolition (toLowerCase v) \<noteq> None)
     [''yes removal needed'', ''no nothing to remove'', ''yes need to remove existing'',
      ''no nothing there'']"
  by code_simp

lemma ev_deckHeight:
  "list_all (\<lambda>v. fst (extract_deckHeight v (toLowerCase v)) \<noteq> None)
     [''0.3 meters high'', ''0.8 meters high'', ''1.2 meters high'', ''2 meters high'']"
  by code_simp

lemma ev_overgrown:
  "list_all (\<lambda>v. extract_overgrown v (toLowerCase v) \<noteq> None) [''last week'', ''3 weeks ago'']"
  by code_simp

lemma ev_gateCount:
  "list_all (\<lambda>v. truthy_num (extract_gateCount v (toLowerCase v))) [''one gate'', ''two gates'']"
  by code_simp

lemma ev_budgetAlignment:
  "list_all (\<lambda>v. extract_budgetAligns (toLowerCase v) \<noteq> None)
     [''yes that works'', ''too expensive need to discuss'']"
  by code_simp

lemma ev_fullName:
  "list_all (\<lambda>v. truthy_str (extract_fullName v (toLowerCase v))) [''John Smith'', ''Guest User'']"
  by code_simp

lemma ev_contactPhone:
  "list_all (\<lambda>v. truthy_str (extract_contactPhone v)) [''07700900000'', ''0000000000'']"
  by code_simp

lemma ev_contactEmail:
  "list_all (\<lambda>v. truthy_str (extract_contactEmail v)) [''user@example.com'', ''guest@example.com'']"
  by code_simp

lemma ev_userBudget:
  "list_all (\<lambda>v. fst (extract_budget v (toLowerCase v) (extract_contactPhone v)) \<noteq> None
               \<and> snd (extract_budget v (toLowerCase v) (extract_contactPhone v)) = Some True)
     [CHR 0xA3 # ''5000'', CHR 0xA3 # ''10000'', CHR 0xA3 # ''20000'', CHR 0xA3 # ''4000'',
      CHR 0xA3 # ''7500'', CHR 0xA3 # ''15000'', CHR 0xA3 # ''25000'']"
  by code_simp

text \<open>The replies that do not parse: "let me type it" has no geometry, the pound sign
  followed by 0 no budget, "no gates" the gate count 0, "three gates" none.\<close>

lemma ev_escape:
  "extract_dimensions ''let me type it'' = (None, None)"
  "extract_area ''let me type it'' (toLowerCase ''let me type it'') None
     (snd (extract_deckHeight ''let me type it'' (toLowerCase ''let me type it''))) = None"
  "fst (extract_budget (CHR 0xA3 # ''0'') (toLowerCase (CHR 0xA3 # ''0''))
     (extract_contactPhone (CHR 0xA3 # ''0''))) = None"
  "extract_gateCount ''no gates'' (toLowerCase ''no gates'') = Some 0"
  "extract_gateCount ''three gates'' (toLowerCase ''three gates'') = None"
  by code_simp+

lemma list_allD: "list_all P xs \<Longrightarrow> v \<in> set xs \<Longrightarrow> P v"
  by (simp add: list_all_iff)

subsection \<open>Extraction and merge, field by field\<close>

text \<open>Field by field: a literal of the list, extracted and merged, sets the field.\<close>

lemma parses_service:
  assumes "v \<in> set [''patio'', ''decking'', ''lawn mowing'', ''landscaping'', ''planting'',
                     ''fencing'', ''pergola'']"
  shows "field_is_set ''service'' (updateStateWithExtraction s (extractLocalInformation v))"
  using list_allD [OF ev_service assms] by (simp add: field_is_set_def update_service x_fields)

lemma parses_dimensions:
  assumes "v \<in> set [''15 square meters'', ''35 square meters'', ''75 square meters'',
                     ''120 square meters'']"
  shows "field_is_set ''dimensions'' (updateStateWithExtraction s (extractLocalInformation v))"
proof -
  have "truthy_num (x_area_m2 (extractLocalInformation v))
        \<and> \<not> num_lt (x_area_m2 (extractLocalInformation v)) 2"
    using list_allD [OF ev_dimensions assms] by (simp add: x_fields)
  then show ?thesis
    by (simp add: field_is_set_def update_area_m2 truthy_num_set)
qed

lemma parses_materialTier:
  assumes "v \<in> set (tierReplies Hardscaping @ tierReplies Decking @ tierReplies Mowing
                     @ tierReplies Planting @ tierReplies Fencing @ tierReplies Framing
                     @ tierReplies Softscaping
                     @ [''budget option'', ''mid range'', ''premium quality'',
                        ''essential option'', ''luxury ''])"
  shows "field_is_set ''materialTier'' (updateStateWithExtraction s (extractLocalInformation v))"
  using list_allD [OF ev_materialTier assms]
  by (simp add: field_is_set_def update_materialTier x_fields)

lemma parses_tierReplies:
  assumes "v \<in> set (tierReplies sv)"
  shows "field_is_set ''materialTier'' (updateStateWithExtraction s (extractLocalInformation v))"
  using assms by (intro parses_materialTier) (cases sv; auto)

lemma parses_excavatorAccess:
  assumes "v \<in> set [''yes it fits'', ''narrow access'', ''yes wide access'', ''narrow gate'']"
  shows "field_is_set ''excavatorAccess'' (updateStateWithExtraction s (extractLocalInformation v))"
  using list_allD [OF ev_excavatorAccess assms]
  by (simp add: field_is_set_def update_hasExcavatorAccess x_fields)

lemma parses_driveway:
  assumes "v \<in> set [''yes driveway'', ''on the street'', ''on street'']"
  shows "field_is_set ''driveway'' (updateStateWithExtraction s (extractLocalInformation v))"
  using list_allD [OF ev_driveway assms]
  by (simp add: field_is_set_def update_hasDrivewayForSkip x_fields)

lemma parses_slope:
  assumes "v \<in> set [''flat'', ''moderate slope'', ''steep slope'', ''flat ground'']"
  shows "field_is_set ''slope'' (updateStateWithExtraction s (extractLocalInformation v))"
  using list_allD [OF ev_slope assms] by (simp add: field_is_set_def update_slopeLevel x_fields)

lemma parses_demolition:
  assumes "v \<in> set [''yes removal needed'', ''no nothing to remove'',
                     ''yes need to remove existing'', ''no nothing there'']"
  shows "field_is_set ''demolition'' (updateStateWithExtraction s (extractLocalInformation v))"
  using list_allD [OF ev_demolition assms]
  by (simp add: field_is_set_def update_existingDemolition x_fields)

lemma parses_deckHeight:
  assumes "v \<in> set [''0.3 meters high'', ''0.8 meters high'', ''1.2 meters high'',
                     ''2 meters high'']"
    and "service s = Some Decking"
  shows "field_is_set ''deckHeight'' (updateStateWithExtraction s (extractLocalInformation v))"
  using list_allD [OF ev_deckHeight assms(1)] assms(2)
  by (simp add: field_is_set_def update_deckHeight_m x_fields)

lemma parses_overgrown:
  assumes "v \<in> set [''last week'', ''3 weeks ago'']"
  shows "field_is_set ''overgrown'' (updateStateWithExtraction s (extractLocalInformation v))"
  using list_allD [OF ev_overgrown assms] by (simp add: field_is_set_def update_overgrown x_fields)

lemma parses_gateCount:
  assumes "v \<in> set [''one gate'', ''two gates'']"
  shows "field_is_set ''gateCount'' (updateStateWithExtraction s (extractLocalInformation v))"
proof -
  have "truthy_num (x_gateCount (extractLocalInformation v))"
    using list_allD [OF ev_gateCount assms] by (simp add: x_fields)
  then show ?thesis
    by (simp add: field_is_set_def update_gateCount truthy_num_set)
qed

lemma parses_budgetAlignment:
  assumes "v \<in> set [''yes that works'', ''too expensive need to discuss'']"
  shows "field_is_set ''budgetAlignment'' (updateStateWithExtraction s (extractLocalInformation v))"
  using list_allD [OF ev_budgetAlignment assms]
  by (simp add: field_is_set_def update_budgetAligns x_fields)

lemma parses_fullName:
  assumes "v \<in> set [''John Smith'', ''Guest User'']" and "currentField_of s = ''fullName''"
  shows "field_is_set ''fullName'' (updateStateWithExtraction s (extractLocalInformation v))"
proof -
  have "truthy_str (x_fullName (extractLocalInformation v))"
    using list_allD [OF ev_fullName assms(1)] by (simp add: x_fields)
  then show ?thesis
    using assms(2) by (simp add: field_is_set_def update_fullName truthy_str_set)
qed

lemma parses_contactPhone:
  assumes "v \<in> set [''07700900000'', ''0000000000'']"
  shows "field_is_set ''contactPhone'' (updateStateWithExtraction s (extractLocalInformation v))"
proof -
  have "truthy_str (x_contactPhone (extractLocalInformation v))"
    using list_allD [OF ev_contactPhone assms] by (simp add: x_fields)
  then show ?thesis
    by (simp add: field_is_set_def update_contactPhone truthy_str_set)
qed

lemma parses_contactEmail:
  assumes "v \<in> set [''user@example.com'', ''guest@example.com'']"
  shows "field_is_set ''contactEmail'' (updateStateWithExtraction s (extractLocalInformation v))"
proof -
  have "truthy_str (x_contactEmail (extractLocalInformation v))"
    using list_allD [OF ev_contactEmail assms] by (simp add: x_fields)
  then show ?thesis
    by (simp add: field_is_set_def update_contactEmail truthy_str_set)
qed

lemma parses_userBudget:
  assumes "v \<in> set [CHR 0xA3 # ''5000'', CHR 0xA3 # ''10000'', CHR 0xA3 # ''20000'',
                     CHR 0xA3 # ''4000'', CHR 0xA3 # ''7500'', CHR 0xA3 # ''15000'',
                     CHR 0xA3 # ''25000'']"
  shows "field_is_set ''userBudget'' (updateStateWithExtraction s (extractLocalInformation v))"
proof -
  have "x_userBudget (extractLocalInformation v) \<noteq> None
        \<and> x_explicitBudget (extractLocalInformation v) = Some True"
    using list_allD [OF ev_userBudget assms] by (simp add: x_fields)
  then show ?thesis
    by (simp add: field_is_set_def update_userBudget)
qed

subsection \<open>The four functions\<close>

text \<open>What is left of a list of replies without the replies that are not parsed.\<close>

lemma parsed_reply:
  assumes "v \<notin> set unparsedReplies"
  shows "v \<noteq> ''let me type it''" and "v \<noteq> WRITE_IT_OUT" and "v \<noteq> CHR 0xA3 # ''0''"
    and "v \<noteq> ''no gates''" and "v \<noteq> ''three gates''" and "v \<noteq> ''As soon as possible''"
    and "v \<noteq> ''Within the next 3 months''" and "v \<noteq> ''Just planning ahead''"
    and "v \<noteq> ''Not sure yet''"
  using assms
  by (auto simp add: unparsedReplies_def escapeReplies_def timingReplies_def gateReplies_def)

lemma withWriteItOut_parsed:
  "v \<in> set (withWriteItOut l) \<Longrightarrow> v \<notin> set unparsedReplies \<Longrightarrow> v \<in> set l"
  by (auto simp add: withWriteItOut_def dest: parsed_reply(2))

lemma fallback_parses:
  assumes v: "v \<in> set (getFallbackQuickReplies field s)"
    and x: "v \<notin> set unparsedReplies"
    and a: "asking s field"
  shows "field_is_set field (updateStateWithExtraction s (extractLocalInformation v))"
proof -
  note p = parsed_reply [OF x]
  define q1 where "q1 \<longleftrightarrow> field = ''service''"
  define q2 where "q2 \<longleftrightarrow> field = ''dimensions''"
  define q3 where "q3 \<longleftrightarrow> field = ''materialTier''"
  define q4 where "q4 \<longleftrightarrow> field = ''excavatorAccess''"
  define q5 where "q5 \<longleftrightarrow> field = ''driveway''"
  define q6 where "q6 \<longleftrightarrow> field = ''slope''"
  define q7 where "q7 \<longleftrightarrow> field = ''demolition''"
  define q8 where "q8 \<longleftrightarrow> field = ''deckHeight''"
  define q9 where "q9 \<longleftrightarrow> field = ''overgrown''"
  define q10 where "q10 \<longleftrightarrow> field = ''gateCount''"
  define q11 where "q11 \<longleftrightarrow> field = ''budgetAlignment''"
  define q12 where "q12 \<longleftrightarrow> field = ''fullName''"
  define q13 where "q13 \<longleftrightarrow> field = ''contactPhone''"
  define q14 where "q14 \<longleftrightarrow> field = ''contactEmail''"
  define q15 where "q15 \<longleftrightarrow> field = ''userBudget''"
  define q16 where "q16 \<longleftrightarrow> field = ''projectStartTiming''"
  note qs = q1_def q2_def q3_def q4_def q5_def q6_def q7_def q8_def q9_def q10_def q11_def q12_def q13_def q14_def q15_def q16_def
  consider (service) q1
    | (dimensions) q2
    | (materialTier) q3
    | (excavatorAccess) q4
    | (driveway) q5
    | (slope) q6
    | (demolition) q7
    | (deckHeight) q8
    | (overgrown) q9
    | (gateCount) q10
    | (budgetAlignment) q11
    | (fullName) q12
    | (contactPhone) q13
    | (contactEmail) q14
    | (userBudget) q15
    | (projectStartTiming) q16
    | (other) "\<not> q1" "\<not> q2" "\<not> q3" "\<not> q4" "\<not> q5" "\<not> q6" "\<not> q7" "\<not> q8" "\<not> q9" "\<not> q10" "\<not> q11" "\<not> q12" "\<not> q13" "\<not> q14" "\<not> q15" "\<not> q16"
    by blast
  then show ?thesis
  proof cases
    case service
    then have f: "field = ''service''" by (simp add: q1_def)
    show ?thesis
      unfolding f using v p f
      by (intro parses_service) (auto simp add: getFallbackQuickReplies_def)
  next
    case dimensions
    then have f: "field = ''dimensions''" by (simp add: q2_def)
    show ?thesis
      unfolding f using v p f
      by (intro parses_dimensions) (auto simp add: getFallbackQuickReplies_def)
  next
    case materialTier
    then have f: "field = ''materialTier''" by (simp add: q3_def)
    show ?thesis
      unfolding f using v p f
      by (intro parses_materialTier) (auto simp add: getFallbackQuickReplies_def split: if_splits)
  next
    case excavatorAccess
    then have f: "field = ''excavatorAccess''" by (simp add: q4_def)
    show ?thesis
      unfolding f using v p f
      by (intro parses_excavatorAccess) (auto simp add: getFallbackQuickReplies_def)
  next
    case driveway
    then have f: "field = ''driveway''" by (simp add: q5_def)
    show ?thesis
      unfolding f using v p f
      by (intro parses_driveway) (auto simp add: getFallbackQuickReplies_def)
  next
    case slope
    then have f: "field = ''slope''" by (simp add: q6_def)
    show ?thesis
      unfolding f using v p f
      by (intro parses_slope) (auto simp add: getFallbackQuickReplies_def)
  next
    case demolition
    then have f: "field = ''demolition''" by (simp add: q7_def)
    show ?thesis
      unfolding f using v p f
      by (intro parses_demolition) (auto simp add: getFallbackQuickReplies_def)
  next
    case deckHeight
    then have f: "field = ''deckHeight''" by (simp add: q8_def)
    then have d: "service s = Some Decking" using a by (simp add: asking_def)
    show ?thesis
      unfolding f using v p f d
      by (intro parses_deckHeight) (auto simp add: getFallbackQuickReplies_def)
  next
    case overgrown
    then have f: "field = ''overgrown''" by (simp add: q9_def)
    show ?thesis
      unfolding f using v p f
      by (intro parses_overgrown) (auto simp add: getFallbackQuickReplies_def)
  next
    case gateCount
    then have f: "field = ''gateCount''" by (simp add: q10_def)
    show ?thesis
      unfolding f using v p f
      by (intro parses_gateCount) (auto simp add: getFallbackQuickReplies_def)
  next
    case budgetAlignment
    then have f: "field = ''budgetAlignment''" by (simp add: q11_def)
    show ?thesis
      unfolding f using v p f
      by (intro parses_budgetAlignment) (auto simp add: getFallbackQuickReplies_def)
  next
    case fullName
    then have f: "field = ''fullName''" by (simp add: q12_def)
    then have d: "currentField_of s = ''fullName''" using a by (simp add: asking_def)
    show ?thesis
      unfolding f using v p f d
      by (intro parses_fullName) (auto simp add: getFallbackQuickReplies_def)
  next
    case contactPhone
    then have f: "field = ''contactPhone''" by (simp add: q13_def)
    show ?thesis
      unfolding f using v p f
      by (intro parses_contactPhone) (auto simp add: getFallbackQuickReplies_def)
  next
    case contactEmail
    then have f: "field = ''contactEmail''" by (simp add: q14_def)
    show ?thesis
      unfolding f using v p f
      by (intro parses_contactEmail) (auto simp add: getFallbackQuickReplies_def)
  next
    case userBudget
    then have f: "field = ''userBudget''" by (simp add: q15_def)
    show ?thesis
      unfolding f using v p f
      by (intro parses_userBudget) (auto simp add: getFallbackQuickReplies_def)
  next
    case projectStartTiming
    then have f: "field = ''projectStartTiming''" by (simp add: q16_def)
    then have False
      using v p by (auto simp add: getFallbackQuickReplies_def)
    then show ?thesis ..
  next
    case other
    then have "getFallbackQuickReplies field s = []"
      by (simp add: getFallbackQuickReplies_def qs)
    then show ?thesis using v by simp
  qed
qed

lemma fallback_v1_parses:
  assumes v: "v \<in> set (getFallbackQuickReplies_v1 field s)"
    and x: "v \<notin> set unparsedReplies"
    and a: "asking s field"
  shows "field_is_set field (updateStateWithExtraction s (extractLocalInformation v))"
proof -
  note p = parsed_reply [OF x]
  define q1 where "q1 \<longleftrightarrow> field = ''service''"
  define q2 where "q2 \<longleftrightarrow> field = ''dimensions''"
  define q3 where "q3 \<longleftrightarrow> field = ''materialTier''"
  define q4 where "q4 \<longleftrightarrow> field = ''excavatorAccess''"
  define q5 where "q5 \<longleftrightarrow> field = ''driveway''"
  define q6 where "q6 \<longleftrightarrow> field = ''slope''"
  define q7 where "q7 \<longleftrightarrow> field = ''demolition''"
  define q8 where "q8 \<longleftrightarrow> field = ''deckHeight''"
  define q9 where "q9 \<longleftrightarrow> field = ''overgrown''"
  define q10 where "q10 \<longleftrightarrow> field = ''gateCount''"
  define q11 where "q11 \<longleftrightarrow> field = ''budgetAlignment''"
  define q12 where "q12 \<longleftrightarrow> field = ''fullName''"
  define q13 where "q13 \<longleftrightarrow> field = ''contactPhone''"
  define q14 where "q14 \<longleftrightarrow> field = ''contactEmail''"
  define q15 where "q15 \<longleftrightarrow> field = ''userBudget''"
  note qs = q1_def q2_def q3_def q4_def q5_def q6_def q7_def q8_def q9_def q10_def q11_def q12_def q13_def q14_def q15_def
  consider (service) q1
    | (dimensions) q2
    | (materialTier) q3
    | (excavatorAccess) q4
    | (driveway) q5
    | (slope) q6
    | (demolition) q7
    | (deckHeight) q8
    | (overgrown) q9
    | (gateCount) q10
    | (budgetAlignment) q11
    | (fullName) q12
    | (contactPhone) q13
    | (contactEmail) q14
    | (userBudget) q15
    | (other) "\<not> q1" "\<not> q2" "\<not> q3" "\<not> q4" "\<not> q5" "\<not> q6" "\<not> q7" "\<not> q8" "\<not> q9" "\<not> q10" "\<not> q11" "\<not> q12" "\<not> q13" "\<not> q14" "\<not> q15"
    by blast
  then show ?thesis
  proof cases
    case service
    then have f: "field = ''service''" by (simp add: q1_def)
    show ?thesis
      unfolding f using v p f
      by (intro parses_service) (auto simp add: getFallbackQuickReplies_v1_def)
  next
    case dimensions
    then have f: "field = ''dimensions''" by (simp add: q2_def)
    show ?thesis
      unfolding f using v p f
      by (intro parses_dimensions) (auto simp add: getFallbackQuickReplies_v1_def)
  next
    case materialTier
    then have f: "field = ''materialTier''" by (simp add: q3_def)
    show ?thesis
      unfolding f using v p f
      by (intro parses_materialTier) (auto simp add: getFallbackQuickReplies_v1_def split: if_splits)
  next
    case excavatorAccess
    then have f: "field = ''excavatorAccess''" by (simp add: q4_def)
    show ?thesis
      unfolding f using v p f
      by (intro parses_excavatorAccess) (auto simp add: getFallbackQuickReplies_v1_def)
  next
    case driveway
    then have f: "field = ''driveway''" by (simp add: q5_def)
    show ?thesis
      unfolding f using v p f
      by (intro parses_driveway) (auto simp add: getFallbackQuickReplies_v1_def)
  next
    case slope
    then have f: "field = ''slope''" by (simp add: q6_def)
    show ?thesis
      unfolding f using v p f
      by (intro parses_slope) (auto simp add: getFallbackQuickReplies_v1_def)
  next
    case demolition
    then have f: "field = ''demolition''" by (simp add: q7_def)
    show ?thesis
      unfolding f using v p f
      by (intro parses_demolition) (auto simp add: getFallbackQuickReplies_v1_def)
  next
    case deckHeight
    then have f: "field = ''deckHeight''" by (simp add: q8_def)
    then have d: "service s = Some Decking" using a by (simp add: asking_def)
    show ?thesis
      unfolding f using v p f d
      by (intro parses_deckHeight) (auto simp add: getFallbackQuickReplies_v1_def)
  next
    case overgrown
    then have f: "field = ''overgrown''" by (simp add: q9_def)
    show ?thesis
      unfolding f using v p f
      by (intro parses_overgrown) (auto simp add: getFallbackQuickReplies_v1_def)
  next
    case gateCount
    then have f: "field = ''gateCount''" by (simp add: q10_def)
    show ?thesis
      unfolding f using v p f
      by (intro parses_gateCount) (auto simp add: getFallbackQuickReplies_v1_def)
  next
    case budgetAlignment
    then have f: "field = ''budgetAlignment''" by (simp add: q11_def)
    show ?thesis
      unfolding f using v p f
      by (intro parses_budgetAlignment) (auto simp add: getFallbackQuickReplies_v1_def)
  next
    case fullName
    then have f: "field = ''fullName''" by (simp add: q12_def)
    then have d: "currentField_of s = ''fullName''" using a by (simp add: asking_def)
    show ?thesis
      unfolding f using v p f d
      by (intro parses_fullName) (auto simp add: getFallbackQuickReplies_v1_def)
  next
    case contactPhone
    then have f: "field = ''contactPhone''" by (simp add: q13_def)
    show ?thesis
      unfolding f using v p f
      by (intro parses_contactPhone) (auto simp add: getFallbackQuickReplies_v1_def)
  next
    case contactEmail
    then have f: "field = ''contactEmail''" by (simp add: q14_def)
    show ?thesis
      unfolding f using v p f
      by (intro parses_contactEmail) (auto simp add: getFallbackQuickReplies_v1_def)
  next
    case userBudget
    then have f: "field = ''userBudget''" by (simp add: q15_def)
    show ?thesis
      unfolding f using v p f
      by (intro parses_userBudget) (auto simp add: getFallbackQuickReplies_v1_def)
  next
    case other
    then have "getFallbackQuickReplies_v1 field s = []"
      by (simp add: getFallbackQuickReplies_v1_def qs)
    then show ?thesis using v by simp
  qed
qed

lemma quick_parses:
  assumes v: "v \<in> set (getQuickReplies s)"
    and x: "v \<notin> set unparsedReplies"
  shows "field_is_set (quickReplyField s) (updateStateWithExtraction s (extractLocalInformation v))"
proof (cases "service s")
  case None
  then have q: "quickReplyField s = ''service''"
    and l: "getQuickReplies s = withWriteItOut [''patio'', ''decking'', ''lawn mowing'', ''landscaping'',
                                      ''planting'', ''fencing'', ''pergola'']"
    by (simp_all add: quickReplyField_def getQuickReplies_def)
  show ?thesis
    unfolding q using withWriteItOut_parsed [OF v [unfolded l] x] by (rule parses_service)
next
  case (Some sv)
  note sv = Some
  note p = parsed_reply [OF x]
  define c1 where "c1 \<longleftrightarrow> \<not> truthy_num (area_m2 s) \<and> \<not> truthy_num (length_m s) \<and> \<not> truthy_num (width_m s)"
  define c2 where "c2 \<longleftrightarrow> materialTier s = None"
  define c3 where "c3 \<longleftrightarrow> hasExcavatorAccess s = None \<and> sv \<noteq> Mowing"
  define c4 where "c4 \<longleftrightarrow> hasDrivewayForSkip s = None \<and> sv \<noteq> Mowing"
  define c5 where "c5 \<longleftrightarrow> slopeLevel s = None \<and> sv \<noteq> Mowing"
  define c6 where "c6 \<longleftrightarrow> existingDemolition s = None \<and> (sv = Hardscaping \<or> sv = Decking)"
  define c7 where "c7 \<longleftrightarrow> sv = Fencing \<and> gateCount s = None"
  define c8 where "c8 \<longleftrightarrow> sv = Mowing \<and> overgrown s = None"
  define c9 where "c9 \<longleftrightarrow> userBudget s = None \<and> truthy_str (contactEmail s)"
  define c10 where "c10 \<longleftrightarrow> userBudget s \<noteq> None \<and> \<not> truthy_str (projectStartTiming s)"
  note cs = c1_def c2_def c3_def c4_def c5_def c6_def c7_def c8_def c9_def c10_def
  have l: "getQuickReplies s =
      (if c1 then withWriteItOut [''15 square meters'', ''35 square meters'', ''75 square meters'', ''120 square meters'']
       else if c2 then withWriteItOut (tierReplies sv)
       else if c3 then withWriteItOut [''yes it fits'', ''narrow access'']
       else if c4 then withWriteItOut [''yes driveway'', ''on the street'']
       else if c5 then withWriteItOut [''flat'', ''moderate slope'', ''steep slope'']
       else if c6 then withWriteItOut [''yes removal needed'', ''no nothing to remove'']
       else if c7 then withWriteItOut [''no gates'', ''one gate'', ''two gates'']
       else if c8 then withWriteItOut [''last week'', ''3 weeks ago'']
       else if c9 then withWriteItOut [CHR 0xA3 # ''4000'', CHR 0xA3 # ''7500'', CHR 0xA3 # ''15000'', CHR 0xA3 # ''25000'', CHR 0xA3 # ''0'']
       else if c10 then withWriteItOut [''As soon as possible'', ''Within the next 3 months'', ''Just planning ahead'', ''Not sure yet'']
       else [])"
    unfolding cs getQuickReplies_def using sv by simp
  have q: "quickReplyField s =
      (if c1 then ''dimensions''
       else if c2 then ''materialTier''
       else if c3 then ''excavatorAccess''
       else if c4 then ''driveway''
       else if c5 then ''slope''
       else if c6 then ''demolition''
       else if c7 then ''gateCount''
       else if c8 then ''overgrown''
       else if c9 then ''userBudget''
       else if c10 then ''projectStartTiming''
       else ''unknown'')"
    unfolding cs quickReplyField_def using sv by simp
  consider (dimensions) c1
    | (materialTier) "\<not> c1" c2
    | (excavatorAccess) "\<not> c1" "\<not> c2" c3
    | (driveway) "\<not> c1" "\<not> c2" "\<not> c3" c4
    | (slope) "\<not> c1" "\<not> c2" "\<not> c3" "\<not> c4" c5
    | (demolition) "\<not> c1" "\<not> c2" "\<not> c3" "\<not> c4" "\<not> c5" c6
    | (gateCount) "\<not> c1" "\<not> c2" "\<not> c3" "\<not> c4" "\<not> c5" "\<not> c6" c7
    | (overgrown) "\<not> c1" "\<not> c2" "\<not> c3" "\<not> c4" "\<not> c5" "\<not> c6" "\<not> c7" c8
    | (userBudget) "\<not> c1" "\<not> c2" "\<not> c3" "\<not> c4" "\<not> c5" "\<not> c6" "\<not> c7" "\<not> c8" c9
    | (projectStartTiming) "\<not> c1" "\<not> c2" "\<not> c3" "\<not> c4" "\<not> c5" "\<not> c6" "\<not> c7" "\<not> c8" "\<not> c9" c10
    | (none) "\<not> c1" "\<not> c2" "\<not> c3" "\<not> c4" "\<not> c5" "\<not> c6" "\<not> c7" "\<not> c8" "\<not> c9" "\<not> c10"
    by blast
  then show ?thesis
  proof cases
    case dimensions
    then have q': "quickReplyField s = ''dimensions''"
      and l': "getQuickReplies s = withWriteItOut [''15 square meters'', ''35 square meters'', ''75 square meters'', ''120 square meters'']"
      by (simp_all add: q l)
    show ?thesis
      unfolding q' using withWriteItOut_parsed [OF v [unfolded l'] x] p by (intro parses_dimensions) auto
  next
    case materialTier
    then have q': "quickReplyField s = ''materialTier''"
      and l': "getQuickReplies s = withWriteItOut (tierReplies sv)"
      by (simp_all add: q l)
    show ?thesis
      unfolding q' using withWriteItOut_parsed [OF v [unfolded l'] x] by (rule parses_tierReplies)
  next
    case excavatorAccess
    then have q': "quickReplyField s = ''excavatorAccess''"
      and l': "getQuickReplies s = withWriteItOut [''yes it fits'', ''narrow access'']"
      by (simp_all add: q l)
    show ?thesis
      unfolding q' using withWriteItOut_parsed [OF v [unfolded l'] x] p by (intro parses_excavatorAccess) auto
  next
    case driveway
    then have q': "quickReplyField s = ''driveway''"
      and l': "getQuickReplies s = withWriteItOut [''yes driveway'', ''on the street'']"
      by (simp_all add: q l)
    show ?thesis
      unfolding q' using withWriteItOut_parsed [OF v [unfolded l'] x] p by (intro parses_driveway) auto
  next
    case slope
    then have q': "quickReplyField s = ''slope''"
      and l': "getQuickReplies s = withWriteItOut [''flat'', ''moderate slope'', ''steep slope'']"
      by (simp_all add: q l)
    show ?thesis
      unfolding q' using withWriteItOut_parsed [OF v [unfolded l'] x] p by (intro parses_slope) auto
  next
    case demolition
    then have q': "quickReplyField s = ''demolition''"
      and l': "getQuickReplies s = withWriteItOut [''yes removal needed'', ''no nothing to remove'']"
      by (simp_all add: q l)
    show ?thesis
      unfolding q' using withWriteItOut_parsed [OF v [unfolded l'] x] p by (intro parses_demolition) auto
  next
    case gateCount
    then have q': "quickReplyField s = ''gateCount''"
      and l': "getQuickReplies s = withWriteItOut [''no gates'', ''one gate'', ''two gates'']"
      by (simp_all add: q l)
    show ?thesis
      unfolding q' using withWriteItOut_parsed [OF v [unfolded l'] x] p by (intro parses_gateCount) auto
  next
    case overgrown
    then have q': "quickReplyField s = ''overgrown''"
      and l': "getQuickReplies s = withWriteItOut [''last week'', ''3 weeks ago'']"
      by (simp_all add: q l)
    show ?thesis
      unfolding q' using withWriteItOut_parsed [OF v [unfolded l'] x] p by (intro parses_overgrown) auto
  next
    case userBudget
    then have q': "quickReplyField s = ''userBudget''"
      and l': "getQuickReplies s = withWriteItOut [CHR 0xA3 # ''4000'', CHR 0xA3 # ''7500'', CHR 0xA3 # ''15000'', CHR 0xA3 # ''25000'', CHR 0xA3 # ''0'']"
      by (simp_all add: q l)
    show ?thesis
      unfolding q' using withWriteItOut_parsed [OF v [unfolded l'] x] p by (intro parses_userBudget) auto
  next
    case projectStartTiming
    then have q': "quickReplyField s = ''projectStartTiming''"
      and l': "getQuickReplies s = withWriteItOut [''As soon as possible'', ''Within the next 3 months'', ''Just planning ahead'', ''Not sure yet'']"
      by (simp_all add: q l)
    have False
      using withWriteItOut_parsed [OF v [unfolded l'] x] p by auto
    then show ?thesis ..
  next
    case none
    then have "getQuickReplies s = []"
      by (simp add: l)
    then show ?thesis using v by simp
  qed
qed

lemma quick_v1_parses:
  assumes v: "v \<in> set (getQuickReplies_v1 s)"
    and x: "v \<notin> set unparsedReplies"
  shows "field_is_set (quickReplyField_v1 s) (updateStateWithExtraction s (extractLocalInformation v))"
proof (cases "service s")
  case None
  then have "getQuickReplies_v1 s = []"
    by (simp add: getQuickReplies_v1_def)
  then show ?thesis using v by simp
next
  case (Some sv)
  note sv = Some
  note p = parsed_reply [OF x]
  define c1 where "c1 \<longleftrightarrow> materialTier s = None"
  define c2 where "c2 \<longleftrightarrow> hasExcavatorAccess s = None \<and> sv \<noteq> Mowing"
  define c3 where "c3 \<longleftrightarrow> hasDrivewayForSkip s = None \<and> sv \<noteq> Mowing"
  define c4 where "c4 \<longleftrightarrow> slopeLevel s = None \<and> sv \<noteq> Mowing"
  define c5 where "c5 \<longleftrightarrow> existingDemolition s = None \<and> (sv = Hardscaping \<or> sv = Decking)"
  define c6 where "c6 \<longleftrightarrow> sv = Fencing \<and> gateCount s = None"
  define c7 where "c7 \<longleftrightarrow> sv = Mowing \<and> overgrown s = None"
  note cs = c1_def c2_def c3_def c4_def c5_def c6_def c7_def
  have l: "getQuickReplies_v1 s =
      (if c1 then tierReplies sv
       else if c2 then [''yes it fits'', ''narrow access'']
       else if c3 then [''yes driveway'', ''on the street'']
       else if c4 then [''flat'', ''moderate slope'', ''steep slope'']
       else if c5 then [''yes removal needed'', ''no nothing to remove'']
       else if c6 then [''no gates'', ''one gate'', ''two gates'']
       else if c7 then [''last week'', ''3 weeks ago'']
       else [])"
    unfolding cs getQuickReplies_v1_def using sv by simp
  have q: "quickReplyField_v1 s =
      (if c1 then ''materialTier''
       else if c2 then ''excavatorAccess''
       else if c3 then ''driveway''
       else if c4 then ''slope''
       else if c5 then ''demolition''
       else if c6 then ''gateCount''
       else if c7 then ''overgrown''
       else ''unknown'')"
    unfolding cs quickReplyField_v1_def using sv by simp
  consider (materialTier) c1
    | (excavatorAccess) "\<not> c1" c2
    | (driveway) "\<not> c1" "\<not> c2" c3
    | (slope) "\<not> c1" "\<not> c2" "\<not> c3" c4
    | (demolition) "\<not> c1" "\<not> c2" "\<not> c3" "\<not> c4" c5
    | (gateCount) "\<not> c1" "\<not> c2" "\<not> c3" "\<not> c4" "\<not> c5" c6
    | (overgrown) "\<not> c1" "\<not> c2" "\<not> c3" "\<not> c4" "\<not> c5" "\<not> c6" c7
    | (none) "\<not> c1" "\<not> c2" "\<not> c3" "\<not> c4" "\<not> c5" "\<not> c6" "\<not> c7"
    by blast
  then show ?thesis
  proof cases
    case materialTier
    then have q': "quickReplyField_v1 s = ''materialTier''"
      and l': "getQuickReplies_v1 s = tierReplies sv"
      by (simp_all add: q l)
    show ?thesis
      unfolding q' using v [unfolded l'] by (rule parses_tierReplies)
  next
    case excavatorAccess
    then have q': "quickReplyField_v1 s = ''excavatorAccess''"
      and l': "getQuickReplies_v1 s = [''yes it fits'', ''narrow access'']"
      by (simp_all add: q l)
    show ?thesis
      unfolding q' using v [unfolded l'] p by (intro parses_excavatorAccess) auto
  next
    case driveway
    then have q': "quickReplyField_v1 s = ''driveway''"
      and l': "getQuickReplies_v1 s = [''yes driveway'', ''on the street'']"
      by (simp_all add: q l)
    show ?thesis
      unfolding q' using v [unfolded l'] p by (intro parses_driveway) auto
  next
    case slope
    then have q': "quickReplyField_v1 s = ''slope''"
      and l': "getQuickReplies_v1 s = [''flat'', ''moderate slope'', ''steep slope'']"
      by (simp_all add: q l)
    show ?thesis
      unfolding q' using v [unfolded l'] p by (intro parses_slope) auto
  next
    case demolition
    then have q': "quickReplyField_v1 s = ''demolition''"
      and l': "getQuickReplies_v1 s = [''yes removal needed'', ''no nothing to remove'']"
      by (simp_all add: q l)
    show ?thesis
      unfolding q' using v [unfolded l'] p by (intro parses_demolition) auto
  next
    case gateCount
    then have q': "quickReplyField_v1 s = ''gateCount''"
      and l': "getQuickReplies_v1 s = [''no gates'', ''one gate'', ''two gates'']"
      by (simp_all add: q l)
    show ?thesis
      unfolding q' using v [unfolded l'] p by (intro parses_gateCount) auto
  next
    case overgrown
    then have q': "quickReplyField_v1 s = ''overgrown''"
      and l': "getQuickReplies_v1 s = [''last week'', ''3 weeks ago'']"
      by (simp_all add: q l)
    show ?thesis
      unfolding q' using v [unfolded l'] p by (intro parses_overgrown) auto
  next
    case none
    then have "getQuickReplies_v1 s = []"
      by (simp add: l)
    then show ?thesis using v by simp
  qed
qed

subsection \<open>The replies that are not parsed\<close>

text \<open>"no gates" and "three gates" leave the gate count as it was, the pound sign followed
  by 0 leaves the budget, and no utterance sets the start timing.\<close>

lemma gate_replies_not_merged:
  "gateCount (updateStateWithExtraction s (extractLocalInformation ''no gates'')) = gateCount s"
  "gateCount (updateStateWithExtraction s (extractLocalInformation ''three gates'')) = gateCount s"
  by (simp_all add: update_gateCount_zero x_fields ev_escape truthy_num_def)

lemma not_sure_budget_not_merged:
  "userBudget (updateStateWithExtraction s (extractLocalInformation (CHR 0xA3 # ''0'')))
     = userBudget s"
  by (simp add: update_userBudget_none x_fields ev_escape)

lemma start_timing_not_extracted:
  "projectStartTiming (updateStateWithExtraction s (extractLocalInformation v))
     = projectStartTiming s"
proof -
  have "x_projectStartTiming (extractLocalInformation v) = None"
    by (simp add: extractLocalInformation_def Let_def)
  then show ?thesis
    by (simp add: updateStateWithExtraction_def Let_def assign_if_frame [of projectStartTiming]
        assign_if_False truthy_str_def)
qed

subsection \<open>Every parsed quick reply sets its field\<close>

text \<open>
  Claim C8, as stated: it fails. "let me type it" is a quick reply for the dimensions
  ("I'll type exact size"); extracted and merged while the dimensions are the
  currently-asked field, it sets neither an area nor a length.
\<close>

theorem quick_reply_type_it_counterexample:
  "''let me type it'' \<in> set (getFallbackQuickReplies ''dimensions'' askingDimensions)
   \<and> asking askingDimensions ''dimensions''
   \<and> \<not> field_is_set ''dimensions''
         (updateStateWithExtraction askingDimensions (extractLocalInformation ''let me type it''))"
proof -
  have "area_m2 (updateStateWithExtraction askingDimensions
                  (extractLocalInformation ''let me type it'')) = None
      \<and> length_m (updateStateWithExtraction askingDimensions
                  (extractLocalInformation ''let me type it'')) = None"
    by (rule update_no_dimensions)
       (simp_all add: x_fields ev_escape truthy_num_def askingDimensions_def createInitialState_def)
  then show ?thesis
    by (simp add: field_is_set_def getFallbackQuickReplies_def asking_def currentField_of_def
        askingDimensions_def)
qed

text \<open>
  Claim C8, amended: every quick-reply literal other than the options to type the answer,
  the "not sure" budget, the start-timing replies and the gate replies "no gates" and
  "three gates" sets its field. For a literal \<open>v\<close> of \<open>getFallbackQuickReplies\<close> for a
  field, extracting \<open>v\<close> and merging the result into a state in which that field is the
  currently-asked one sets the field; for a literal of \<open>getQuickReplies\<close>, it sets the
  field of the branch that offers it. The same holds for both copies of the module.
\<close>

theorem quick_reply_literals_parse:
  assumes "v \<notin> set unparsedReplies"
  shows "(v \<in> set (getFallbackQuickReplies field s) \<and> asking s field
            \<longrightarrow> field_is_set field (updateStateWithExtraction s (extractLocalInformation v)))
         \<and> (v \<in> set (getQuickReplies s)
            \<longrightarrow> field_is_set (quickReplyField s)
                  (updateStateWithExtraction s (extractLocalInformation v)))
         \<and> (v \<in> set (getFallbackQuickReplies_v1 field s) \<and> asking s field
            \<longrightarrow> field_is_set field (updateStateWithExtraction s (extractLocalInformation v)))
         \<and> (v \<in> set (getQuickReplies_v1 s)
            \<longrightarrow> field_is_set (quickReplyField_v1 s)
                  (updateStateWithExtraction s (extractLocalInformation v)))"
  using assms fallback_parses quick_parses fallback_v1_parses quick_v1_parses by blast

theorem quick_reply_literals_parse_witness:
  "''15 square meters'' \<notin> set unparsedReplies
   \<and> ''15 square meters'' \<in> set (getFallbackQuickReplies ''dimensions'' askingDimensions)
   \<and> ''15 square meters'' \<in> set (getQuickReplies askingDimensions)
   \<and> ''15 square meters'' \<in> set (getFallbackQuickReplies_v1 ''dimensions'' askingDimensions)
   \<and> asking askingDimensions ''dimensions''
   \<and> field_is_set ''dimensions''
        (updateStateWithExtraction askingDimensions (extractLocalInformation ''15 square meters''))
   \<and> field_is_set (quickReplyField askingDimensions)
        (updateStateWithExtraction askingDimensions (extractLocalInformation ''15 square meters''))
   \<and> ''indian sandstone'' \<notin> set unparsedReplies
   \<and> ''indian sandstone'' \<in> set (getQuickReplies_v1 askingDimensions)
   \<and> field_is_set (quickReplyField_v1 askingDimensions)
        (updateStateWithExtraction askingDimensions (extractLocalInformation ''indian sandstone''))"
proof -
  have n1: "''15 square meters'' \<notin> set unparsedReplies"
    and n2: "''indian sandstone'' \<notin> set unparsedReplies"
    by (simp_all add: unparsedReplies_def escapeReplies_def timingReplies_def gateReplies_def
        WRITE_IT_OUT_def)
  have m1: "''15 square meters'' \<in> set (getFallbackQuickReplies ''dimensions'' askingDimensions)"
    and m3: "''15 square meters'' \<in> set (getFallbackQuickReplies_v1 ''dimensions'' askingDimensions)"
    by (simp_all add: getFallbackQuickReplies_def getFallbackQuickReplies_v1_def)
  have m2: "''15 square meters'' \<in> set (getQuickReplies askingDimensions)"
    by (simp add: getQuickReplies_def askingDimensions_def createInitialState_def truthy_num_def
        withWriteItOut_def)
  have m4: "''indian sandstone'' \<in> set (getQuickReplies_v1 askingDimensions)"
    by (simp add: getQuickReplies_v1_def askingDimensions_def createInitialState_def)
  have a: "asking askingDimensions ''dimensions''"
    by (simp add: asking_def currentField_of_def askingDimensions_def)
  show ?thesis
    using n1 n2 m1 m2 m3 m4 a
      quick_reply_literals_parse [OF n1, of "''dimensions''" askingDimensions]
      quick_reply_literals_parse [OF n2, of "''materialTier''" askingDimensions]
    by simp
qed

end
